theory Spec2Isabelle
  imports Complex_Main "HOL-Library.Word" "HOL-Library.Monad_Syntax"
begin

unbundle bit_operations_syntax

section \<open>Data Hub: data samples, the resource tree and the I/O service\<close>

text \<open>
  A shallow embedding of the Data Hub's \<^verbatim>\<open>ioPoint.c\<close> (type coercion),
  \<^verbatim>\<open>resTree.c\<close> (the resource tree) and \<^verbatim>\<open>ioService.c\<close> (the I/O API).
  Pointers become references into explicit stores, \<^verbatim>\<open>NULL\<close> becomes \<open>None\<close>,
  every function that mutates takes the hub state and returns the new one, and a failed
  \<^verbatim>\<open>LE_ASSERT\<close> or a read of the wrong union member is the value \<open>None\<close> of an
  option result.
\<close>

subsection \<open>Result codes and enumerations\<close>

datatype le_result =
    LE_OK | LE_NOT_FOUND | LE_UNAVAILABLE | LE_DUPLICATE | LE_BAD_PARAMETER | LE_NO_MEMORY
  | LE_OVERFLOW | LE_IN_PROGRESS | LE_NOT_PERMITTED | LE_FORMAT_ERROR | LE_FAULT

datatype io_DataType =
    IO_DATA_TYPE_TRIGGER | IO_DATA_TYPE_BOOLEAN | IO_DATA_TYPE_NUMERIC
  | IO_DATA_TYPE_STRING | IO_DATA_TYPE_JSON

datatype admin_EntryType =
    ADMIN_ENTRY_TYPE_NONE | ADMIN_ENTRY_TYPE_NAMESPACE | ADMIN_ENTRY_TYPE_PLACEHOLDER
  | ADMIN_ENTRY_TYPE_INPUT | ADMIN_ENTRY_TYPE_OUTPUT | ADMIN_ENTRY_TYPE_OBSERVATION

datatype admin_ResourceOperationType = ADMIN_RESOURCE_ADDED | ADMIN_RESOURCE_REMOVED

subsection \<open>Doubles\<close>

text \<open>
  A C \<^verbatim>\<open>double\<close> as far as the code looks at it: a finite value, an infinity or
  \<^verbatim>\<open>NAN\<close>. The code compares doubles with zero and stores them; it does no
  arithmetic on them.
\<close>

datatype double = Finite real | PosInf | NegInf | NaN

definition IO_NOW :: double where
  "IO_NOW = Finite 0"

definition double_of_bool :: "bool \<Rightarrow> double" where
  "double_of_bool b = (if b then Finite 1 else Finite 0)"

subsection \<open>Data samples\<close>

datatype sample_value =
    TriggerValue | BooleanValue bool | NumericValue double | StringValue string | JsonValue string

record DataSample =
  timestamp :: double
  sample_val :: sample_value

text \<open>The variant a sample holds. The C union is untagged; callers carry the type beside it.\<close>

fun sample_type :: "DataSample \<Rightarrow> io_DataType" where
  "sample_type s =
     (case sample_val s of
        TriggerValue \<Rightarrow> IO_DATA_TYPE_TRIGGER
      | BooleanValue _ \<Rightarrow> IO_DATA_TYPE_BOOLEAN
      | NumericValue _ \<Rightarrow> IO_DATA_TYPE_NUMERIC
      | StringValue _ \<Rightarrow> IO_DATA_TYPE_STRING
      | JsonValue _ \<Rightarrow> IO_DATA_TYPE_JSON)"

subsection \<open>What the files outside the sources supply\<close>

text \<open>
  The constants of \<^verbatim>\<open>dataHub.h\<close> and \<^verbatim>\<open>resource.h\<close>, the optional build macro
  \<^verbatim>\<open>DHUB_IO_PUSH_HANDLER_COUNT\<close> (\<open>None\<close> when it is not defined), the size of a
  pointer, the clock, the state of the memory pools, the JSON utility, the C library's
  \<^verbatim>\<open>%lf\<close> formatting, the framework's \<^verbatim>\<open>le_utf8_Copy\<close> and the sample module's
  \<^verbatim>\<open>dataSample_ConvertToJson\<close> are not part of the sources. They are taken as
  parameters, collected in one record.
\<close>

record ext =
  HUB_MAX_STRING_BYTES :: nat
  HUB_MAX_ENTRY_NAME_BYTES :: nat
  sizeof_ptr :: nat
  clock_now :: double
  sample_pool_ok :: bool
  json_ConvertToBoolean :: "string \<Rightarrow> bool"
  json_ConvertToNumber :: "string \<Rightarrow> double"
  json_IsValid :: "string \<Rightarrow> bool"
  printf_lf :: "double \<Rightarrow> string"
  RES_FLAG_NEW :: "32 word"
  RES_FLAG_RELEVANT :: "32 word"
  RES_FLAG_DELETED :: "32 word"
  DHUB_IO_PUSH_HANDLER_COUNT :: "32 word option"
  handler_pool_ok :: bool
  le_utf8_Copy :: "string \<Rightarrow> nat \<Rightarrow> le_result \<times> string"
  dataSample_ConvertToJson :: "DataSample \<Rightarrow> io_DataType \<Rightarrow> nat \<Rightarrow> le_result \<times> string"

text \<open>
  Modelled from the spec: the sample factories of \<^verbatim>\<open>dataSample.c\<close>, which is not among
  the sources (only \<^verbatim>\<open>dataSample.h\<close> is). A factory returns \<^verbatim>\<open>NULL\<close> when the pool has
  no block, stores the value, and stores the timestamp it is given, where the timestamp 0
  (\<^verbatim>\<open>IO_NOW\<close>) means "now".
\<close>

definition CreateSample :: "ext \<Rightarrow> double \<Rightarrow> sample_value \<Rightarrow> DataSample option" where
  "CreateSample x ts v =
     (if sample_pool_ok x
      then Some \<lparr>timestamp = (if ts = IO_NOW then clock_now x else ts), sample_val = v\<rparr>
      else None)"

definition dataSample_CreateTrigger :: "ext \<Rightarrow> double \<Rightarrow> DataSample option" where
  "dataSample_CreateTrigger x ts = CreateSample x ts TriggerValue"

definition dataSample_CreateBoolean :: "ext \<Rightarrow> double \<Rightarrow> bool \<Rightarrow> DataSample option" where
  "dataSample_CreateBoolean x ts b = CreateSample x ts (BooleanValue b)"

definition dataSample_CreateNumeric :: "ext \<Rightarrow> double \<Rightarrow> double \<Rightarrow> DataSample option" where
  "dataSample_CreateNumeric x ts d = CreateSample x ts (NumericValue d)"

definition dataSample_CreateString :: "ext \<Rightarrow> double \<Rightarrow> string \<Rightarrow> DataSample option" where
  "dataSample_CreateString x ts s = CreateSample x ts (StringValue s)"

definition dataSample_CreateJson :: "ext \<Rightarrow> double \<Rightarrow> string \<Rightarrow> DataSample option" where
  "dataSample_CreateJson x ts s = CreateSample x ts (JsonValue s)"

definition dataSample_GetTimestamp :: "DataSample \<Rightarrow> double" where
  "dataSample_GetTimestamp s = timestamp s"

text \<open>
  The getters read one member of the union ("you had better be sure that this is a Boolean
  data sample"): on another variant the read is undefined, here \<open>None\<close>.
\<close>

definition dataSample_GetBoolean :: "DataSample \<Rightarrow> bool option" where
  "dataSample_GetBoolean s = (case sample_val s of BooleanValue b \<Rightarrow> Some b | _ \<Rightarrow> None)"

definition dataSample_GetNumeric :: "DataSample \<Rightarrow> double option" where
  "dataSample_GetNumeric s = (case sample_val s of NumericValue d \<Rightarrow> Some d | _ \<Rightarrow> None)"

definition dataSample_GetString :: "DataSample \<Rightarrow> string option" where
  "dataSample_GetString s = (case sample_val s of StringValue t \<Rightarrow> Some t | _ \<Rightarrow> None)"

definition dataSample_GetJson :: "DataSample \<Rightarrow> string option" where
  "dataSample_GetJson s = (case sample_val s of JsonValue t \<Rightarrow> Some t | _ \<Rightarrow> None)"

subsection \<open>C strings in a fixed buffer\<close>

definition NUL :: char where
  "NUL = CHR 0x00"

definition DQUOTE :: char where
  "DQUOTE = CHR 0x22"

text \<open>The string a \<^verbatim>\<open>char\<close> buffer holds: the bytes before the first terminator.\<close>

definition c_string :: "char list \<Rightarrow> string" where
  "c_string buf = takeWhile (\<lambda>c. c \<noteq> NUL) buf"

text \<open>
  \<^verbatim>\<open>snprintf(buf, n, ...)\<close> with the fully formatted text \<open>txt\<close>: the buffer of \<open>n\<close>
  bytes receives at most \<open>n - 1\<close> bytes of the text and a terminator, and the call returns
  the length of the full text. Bytes past the terminator are not written (they stay whatever
  they were; the code never reads them); here they are terminators.
\<close>

definition snprintf :: "nat \<Rightarrow> string \<Rightarrow> char list \<times> nat" where
  "snprintf n txt =
     (let body = take (n - 1) txt
      in (body @ replicate (n - length body) NUL, length txt))"

subsection \<open>Input and Output resources (ioPoint.c)\<close>

text \<open>
  \<^verbatim>\<open>IoResource_t\<close>: the fixed data type and the mandatory flag, after the base
  \<^verbatim>\<open>res_Resource_t\<close>. The base class is declared in \<^verbatim>\<open>resource.h\<close>, which is not among
  the sources; its fields here are the ones the spec's data model lists and the code under
  study reads: units, current value, default value, source link, push handlers.
\<close>

type_synonym res_ref = nat
type_synonym entry_ref = nat
type_synonym handler_ref = nat

record Handler =
  handler_dataType :: io_DataType
  callbackPtr :: nat
  contextPtr :: nat

record Resource =
  units :: string
  dataType :: io_DataType
  isMandatory :: bool
  currentValue :: "DataSample option"
  defaultValue :: "DataSample option"
  srcPtr :: "res_ref option"
  pushHandlerList :: "handler_ref list"

definition ioPoint_GetDataType :: "Resource \<Rightarrow> io_DataType" where
  "ioPoint_GetDataType resPtr = dataType resPtr"

text \<open>
  The tail of \<^verbatim>\<open>ioPoint_DoTypeCoercion\<close>: the result triple is the return code and the
  two in-out parameters \<^verbatim>\<open>*dataTypePtr\<close> and \<^verbatim>\<open>*valueRefPtr\<close> as the call leaves them.
  Reference counts are not part of the model, so the \<^verbatim>\<open>le_mem_Release\<close> of the replaced
  sample does not show.
\<close>

definition coercion_result ::
  "io_DataType \<Rightarrow> DataSample \<Rightarrow> io_DataType \<Rightarrow> DataSample option \<Rightarrow> bool
   \<Rightarrow> le_result \<times> io_DataType \<times> DataSample" where
  "coercion_result fromType fromSample toType toSample needsTypeConversion =
     (case toSample of
        Some s \<Rightarrow> (LE_OK, toType, s)
      | None \<Rightarrow>
          if needsTypeConversion then (LE_NO_MEMORY, fromType, fromSample)
          else (LE_OK, fromType, fromSample))"

text \<open>The numeric to string and numeric to JSON branches share their formatting.\<close>

definition format_numeric :: "ext \<Rightarrow> double \<Rightarrow> string" where
  "format_numeric x oldValue =
     (let (newValue, n) = snprintf (HUB_MAX_STRING_BYTES x) (printf_lf x oldValue)
      in if n \<ge> HUB_MAX_STRING_BYTES x
         then c_string (newValue[0 := NUL])
         else c_string newValue)"

text \<open>
  The string to JSON branch. On overflow the code writes at index
  \<^verbatim>\<open>sizeof(newValue - 2)\<close> and then at index \<^verbatim>\<open>sizeof(newValue - 1)\<close>: both operands
  are pointers, so both indices are the size of a pointer.
\<close>

definition quote_string :: "ext \<Rightarrow> string \<Rightarrow> string" where
  "quote_string x oldValue =
     (let (newValue, n) = snprintf (HUB_MAX_STRING_BYTES x) (DQUOTE # oldValue @ [DQUOTE])
      in if n \<ge> HUB_MAX_STRING_BYTES x
         then c_string ((newValue[sizeof_ptr x := DQUOTE])[sizeof_ptr x := NUL])
         else c_string newValue)"

definition ioPoint_DoTypeCoercion ::
  "ext \<Rightarrow> Resource \<Rightarrow> io_DataType \<Rightarrow> DataSample
   \<Rightarrow> (le_result \<times> io_DataType \<times> DataSample) option" where
  "ioPoint_DoTypeCoercion x resPtr fromType fromSample =
     (let toType = dataType resPtr;
          ts = dataSample_GetTimestamp fromSample;
          converted = (\<lambda>toSample. coercion_result fromType fromSample toType toSample True);
          unchanged = coercion_result fromType fromSample toType None False
      in case toType of
           IO_DATA_TYPE_TRIGGER \<Rightarrow>
             if fromType \<noteq> IO_DATA_TYPE_TRIGGER
             then Some (converted (dataSample_CreateTrigger x ts))
             else Some unchanged
         | IO_DATA_TYPE_BOOLEAN \<Rightarrow>
             (case fromType of
                IO_DATA_TYPE_TRIGGER \<Rightarrow> Some (converted (dataSample_CreateBoolean x ts False))
              | IO_DATA_TYPE_BOOLEAN \<Rightarrow> Some unchanged
              | IO_DATA_TYPE_NUMERIC \<Rightarrow>
                  map_option (\<lambda>v. converted (dataSample_CreateBoolean x ts (v \<noteq> Finite 0)))
                    (dataSample_GetNumeric fromSample)
              | IO_DATA_TYPE_STRING \<Rightarrow>
                  map_option (\<lambda>v. converted (dataSample_CreateBoolean x ts (v \<noteq> [])))
                    (dataSample_GetString fromSample)
              | IO_DATA_TYPE_JSON \<Rightarrow>
                  map_option
                    (\<lambda>v. converted (dataSample_CreateBoolean x ts (json_ConvertToBoolean x v)))
                    (dataSample_GetJson fromSample))
         | IO_DATA_TYPE_NUMERIC \<Rightarrow>
             (case fromType of
                IO_DATA_TYPE_TRIGGER \<Rightarrow> Some (converted (dataSample_CreateNumeric x ts NaN))
              | IO_DATA_TYPE_BOOLEAN \<Rightarrow>
                  map_option (\<lambda>v. converted (dataSample_CreateNumeric x ts (double_of_bool v)))
                    (dataSample_GetBoolean fromSample)
              | IO_DATA_TYPE_NUMERIC \<Rightarrow> Some unchanged
              | IO_DATA_TYPE_STRING \<Rightarrow>
                  map_option
                    (\<lambda>v. converted
                       (dataSample_CreateNumeric x ts (if v = [] then Finite 0 else Finite 1)))
                    (dataSample_GetString fromSample)
              | IO_DATA_TYPE_JSON \<Rightarrow>
                  map_option
                    (\<lambda>v. converted (dataSample_CreateNumeric x ts (json_ConvertToNumber x v)))
                    (dataSample_GetJson fromSample))
         | IO_DATA_TYPE_STRING \<Rightarrow>
             (case fromType of
                IO_DATA_TYPE_TRIGGER \<Rightarrow> Some (converted (dataSample_CreateString x ts []))
              | IO_DATA_TYPE_BOOLEAN \<Rightarrow>
                  map_option
                    (\<lambda>v. converted
                       (dataSample_CreateString x ts (if v then ''true'' else ''false'')))
                    (dataSample_GetBoolean fromSample)
              | IO_DATA_TYPE_NUMERIC \<Rightarrow>
                  map_option
                    (\<lambda>v. converted (dataSample_CreateString x ts (format_numeric x v)))
                    (dataSample_GetNumeric fromSample)
              | IO_DATA_TYPE_STRING \<Rightarrow> Some unchanged
              | IO_DATA_TYPE_JSON \<Rightarrow>
                  map_option (\<lambda>v. converted (dataSample_CreateString x ts v))
                    (dataSample_GetJson fromSample))
         | IO_DATA_TYPE_JSON \<Rightarrow>
             (case fromType of
                IO_DATA_TYPE_TRIGGER \<Rightarrow> Some (converted (dataSample_CreateJson x ts ''null''))
              | IO_DATA_TYPE_BOOLEAN \<Rightarrow>
                  map_option
                    (\<lambda>v. converted
                       (dataSample_CreateJson x ts (if v then ''true'' else ''false'')))
                    (dataSample_GetBoolean fromSample)
              | IO_DATA_TYPE_NUMERIC \<Rightarrow>
                  map_option
                    (\<lambda>v. converted (dataSample_CreateJson x ts (format_numeric x v)))
                    (dataSample_GetNumeric fromSample)
              | IO_DATA_TYPE_STRING \<Rightarrow>
                  map_option
                    (\<lambda>v. converted (dataSample_CreateJson x ts (quote_string x v)))
                    (dataSample_GetString fromSample)
              | IO_DATA_TYPE_JSON \<Rightarrow> Some unchanged))"

definition ioPoint_MarkOptional :: "Resource \<Rightarrow> Resource" where
  "ioPoint_MarkOptional resPtr = resPtr\<lparr>isMandatory := False\<rparr>"

definition ioPoint_IsMandatory :: "Resource \<Rightarrow> bool" where
  "ioPoint_IsMandatory resPtr = isMandatory resPtr"

subsection \<open>The resource tree (resTree.c)\<close>

text \<open>
  \<^verbatim>\<open>Entry_t\<close>. The union \<^verbatim>\<open>u\<close> holds either the resource pointer or the flags; the
  member last written is the constructor, and reading the other member is undefined
  (\<open>None\<close>). The intrusive list link is the entry's position in its parent's
  \<open>childList\<close>.
\<close>

datatype entry_union = U_resourcePtr "res_ref option" | U_flags "32 word"

record Entry =
  parentPtr :: "entry_ref option"
  name :: string
  childList :: "entry_ref list"
  entry_type :: admin_EntryType
  u :: entry_union

definition read_resourcePtr :: "Entry \<Rightarrow> res_ref option option" where
  "read_resourcePtr e = (case u e of U_resourcePtr p \<Rightarrow> Some p | U_flags _ \<Rightarrow> None)"

definition read_flags :: "Entry \<Rightarrow> 32 word option" where
  "read_flags e = (case u e of U_flags f \<Rightarrow> Some f | U_resourcePtr _ \<Rightarrow> None)"

text \<open>
  Calls that leave the modelled files, in the order they are made: the resource tree change
  handlers of the admin service, the snapshot module's deletion record, the memory pool's
  release of a resource or of an entry, and a client's push handler callback.
\<close>

datatype event =
    ResourceTreeChange entry_ref admin_EntryType admin_ResourceOperationType
  | RecordNodeDeletion entry_ref
  | ReleaseResource res_ref
  | ReleaseEntry entry_ref
  | PushCallback handler_ref DataSample

text \<open>
  The hub state. Each store maps every reference to an object, as memory does; which
  references are live is a matter of the tree's shape. \<open>PushHandlerCount\<close> is the
  \<^verbatim>\<open>unsigned int\<close> of \<^verbatim>\<open>ioService.c\<close>.
\<close>

record hub_state =
  entries :: "entry_ref \<Rightarrow> Entry"
  resources :: "res_ref \<Rightarrow> Resource"
  handlerPool :: "handler_ref \<Rightarrow> Handler"
  nextHandlerRef :: handler_ref
  PushHandlerCount :: "32 word"
  log :: "event list"

text \<open>
  Functions the modelled code calls whose bodies are not in the sources:
  \<^verbatim>\<open>res_HasAdminSettings\<close>, \<^verbatim>\<open>res_CreatePlaceholder\<close> and \<^verbatim>\<open>res_MoveAdminSettings\<close>
  of \<^verbatim>\<open>resource.c\<close>, which work on resources only, and the tree functions that
  \<^verbatim>\<open>ioService.c\<close> calls with the result-returning signatures of \<^verbatim>\<open>resTree.h\<close>
  (\<^verbatim>\<open>resTree_CreateInput\<close>, \<^verbatim>\<open>resTree_CreateOutput\<close>, \<^verbatim>\<open>resTree_Push\<close>,
  \<^verbatim>\<open>resTree_SetDefault\<close>). They are parameters.
\<close>

record callees =
  res_HasAdminSettings :: "(res_ref \<Rightarrow> Resource) \<Rightarrow> res_ref option \<Rightarrow> bool"
  res_CreatePlaceholder ::
    "(res_ref \<Rightarrow> Resource) \<Rightarrow> entry_ref \<Rightarrow> res_ref option \<times> (res_ref \<Rightarrow> Resource)"
  res_MoveAdminSettings ::
    "(res_ref \<Rightarrow> Resource) \<Rightarrow> res_ref \<Rightarrow> res_ref option \<Rightarrow> admin_EntryType
     \<Rightarrow> (res_ref \<Rightarrow> Resource)"
  resTree_CreateInput ::
    "hub_state \<Rightarrow> entry_ref option \<Rightarrow> string \<Rightarrow> io_DataType \<Rightarrow> string
     \<Rightarrow> le_result \<times> hub_state"
  resTree_CreateOutput ::
    "hub_state \<Rightarrow> entry_ref option \<Rightarrow> string \<Rightarrow> io_DataType \<Rightarrow> string
     \<Rightarrow> le_result \<times> hub_state"
  resTree_Push ::
    "hub_state \<Rightarrow> entry_ref \<Rightarrow> io_DataType \<Rightarrow> DataSample \<Rightarrow> le_result \<times> hub_state"
  resTree_SetDefault ::
    "hub_state \<Rightarrow> entry_ref \<Rightarrow> io_DataType \<Rightarrow> DataSample \<Rightarrow> le_result \<times> hub_state"

definition resTree_IsResource :: "Entry \<Rightarrow> bool option" where
  "resTree_IsResource entryRef =
     (if entry_type entryRef = ADMIN_ENTRY_TYPE_NAMESPACE then Some False
      else map_option (\<lambda>p. p \<noteq> None) (read_resourcePtr entryRef))"

definition resTree_IsDeleted :: "ext \<Rightarrow> Entry \<Rightarrow> bool option" where
  "resTree_IsDeleted x resEntry =
     (if entry_type resEntry = ADMIN_ENTRY_TYPE_NAMESPACE
      then map_option (\<lambda>f. f AND RES_FLAG_DELETED x \<noteq> 0) (read_flags resEntry)
      else Some False)"

text \<open>A failed \<^verbatim>\<open>LE_ASSERT\<close> ends the process: \<open>None\<close>.\<close>

definition resTree_SetDeleted :: "ext \<Rightarrow> Entry \<Rightarrow> Entry option" where
  "resTree_SetDeleted x resEntry =
     (if entry_type resEntry \<noteq> ADMIN_ENTRY_TYPE_NAMESPACE then None
      else do {
        f \<leftarrow> read_flags resEntry;
        if f AND RES_FLAG_NEW x \<noteq> 0 then None
        else Some (resEntry\<lparr>u := U_flags (f OR RES_FLAG_DELETED x)\<rparr>)
      })"

text \<open>\<^verbatim>\<open>strncmp(a, b, n) == 0\<close> on strings without terminators inside.\<close>

definition strncmp_eq :: "string \<Rightarrow> string \<Rightarrow> nat \<Rightarrow> bool" where
  "strncmp_eq a b n = (take n a = take n b)"

text \<open>The loop of \<^verbatim>\<open>resTree_FindChildEx\<close> over the links of the child list.\<close>

fun FindChildEx_loop ::
  "ext \<Rightarrow> (entry_ref \<Rightarrow> Entry) \<Rightarrow> entry_ref list \<Rightarrow> string \<Rightarrow> bool
   \<Rightarrow> entry_ref option option" where
  "FindChildEx_loop x es [] nm withZombies = Some None"
| "FindChildEx_loop x es (childPtr # links) nm withZombies =
     do {
       visible \<leftarrow> (if withZombies then Some True
                   else map_option Not (resTree_IsDeleted x (es childPtr)));
       if visible \<and> strncmp_eq nm (name (es childPtr)) (HUB_MAX_ENTRY_NAME_BYTES x)
       then Some (Some childPtr)
       else FindChildEx_loop x es links nm withZombies
     }"

definition resTree_FindChildEx ::
  "ext \<Rightarrow> (entry_ref \<Rightarrow> Entry) \<Rightarrow> entry_ref \<Rightarrow> string \<Rightarrow> bool \<Rightarrow> entry_ref option option" where
  "resTree_FindChildEx x es nsRef nm withZombies =
     FindChildEx_loop x es (childList (es nsRef)) nm withZombies"

definition resTree_FindChild ::
  "ext \<Rightarrow> (entry_ref \<Rightarrow> Entry) \<Rightarrow> entry_ref \<Rightarrow> string \<Rightarrow> entry_ref option option" where
  "resTree_FindChild x es nsRef nm = resTree_FindChildEx x es nsRef nm False"

text \<open>\<^verbatim>\<open>le_dls_Peek\<close> and \<^verbatim>\<open>le_dls_PeekNext\<close> on a list of links.\<close>

definition le_dls_Peek :: "'a list \<Rightarrow> 'a option" where
  "le_dls_Peek xs = (case xs of [] \<Rightarrow> None | l # _ \<Rightarrow> Some l)"

definition le_dls_PeekNext :: "'a list \<Rightarrow> 'a \<Rightarrow> 'a option" where
  "le_dls_PeekNext xs l = le_dls_Peek (drop 1 (dropWhile (\<lambda>y. y \<noteq> l) xs))"

definition zombie_filter ::
  "ext \<Rightarrow> (entry_ref \<Rightarrow> Entry) \<Rightarrow> entry_ref option \<Rightarrow> bool \<Rightarrow> entry_ref option option" where
  "zombie_filter x es linkPtr withZombies =
     (case linkPtr of
        None \<Rightarrow> Some None
      | Some childPtr \<Rightarrow>
          do {
            visible \<leftarrow> (if withZombies then Some True
                        else map_option Not (resTree_IsDeleted x (es childPtr)));
            if visible then Some (Some childPtr) else Some None
          })"

definition resTree_GetFirstChildEx ::
  "ext \<Rightarrow> (entry_ref \<Rightarrow> Entry) \<Rightarrow> entry_ref \<Rightarrow> bool \<Rightarrow> entry_ref option option" where
  "resTree_GetFirstChildEx x es entryRef withZombies =
     zombie_filter x es (le_dls_Peek (childList (es entryRef))) withZombies"

definition resTree_GetFirstChild ::
  "ext \<Rightarrow> (entry_ref \<Rightarrow> Entry) \<Rightarrow> entry_ref \<Rightarrow> entry_ref option option" where
  "resTree_GetFirstChild x es entryRef = resTree_GetFirstChildEx x es entryRef False"

definition resTree_GetNextSiblingEx ::
  "ext \<Rightarrow> (entry_ref \<Rightarrow> Entry) \<Rightarrow> entry_ref \<Rightarrow> bool \<Rightarrow> entry_ref option option" where
  "resTree_GetNextSiblingEx x es entryRef withZombies =
     (case parentPtr (es entryRef) of
        None \<Rightarrow> Some None
      | Some p \<Rightarrow> zombie_filter x es (le_dls_PeekNext (childList (es p)) entryRef) withZombies)"

definition resTree_GetNextSibling ::
  "ext \<Rightarrow> (entry_ref \<Rightarrow> Entry) \<Rightarrow> entry_ref \<Rightarrow> entry_ref option option" where
  "resTree_GetNextSibling x es entryRef = resTree_GetNextSiblingEx x es entryRef False"

text \<open>
  \<^verbatim>\<open>GoToEntry\<close> with \<^verbatim>\<open>doCreate == false\<close>, the only way \<^verbatim>\<open>resTree_FindEntry\<close>
  calls it: the loop over the path elements, on the rest of the path.
\<close>

function GoToEntry_loop ::
  "ext \<Rightarrow> (entry_ref \<Rightarrow> Entry) \<Rightarrow> entry_ref \<Rightarrow> string \<Rightarrow> entry_ref option option" where
  "GoToEntry_loop x es currentEntry path =
     (case path of
        [] \<Rightarrow> Some (Some currentEntry)
      | c # cs \<Rightarrow>
          let p = (if c = CHR ''/'' then cs else path);
              entryName = takeWhile (\<lambda>c. c \<noteq> CHR ''/'') p;
              rest = dropWhile (\<lambda>c. c \<noteq> CHR ''/'') p
          in if entryName = [] then Some None
             else if length entryName \<ge> HUB_MAX_ENTRY_NAME_BYTES x then Some None
             else do {
               childPtr \<leftarrow> resTree_FindChildEx x es currentEntry entryName True;
               case childPtr of
                 None \<Rightarrow> Some None
               | Some child \<Rightarrow>
                   do {
                     deleted \<leftarrow> resTree_IsDeleted x (es child);
                     if deleted then Some None else GoToEntry_loop x es child rest
                   }
             })"
  by pat_completeness auto
termination
proof (relation "measure (\<lambda>(x, es, currentEntry, path). length path)")
  show "wf (measure (\<lambda>(x, es, currentEntry, path). length path))"
    by simp
next
  fix x :: ext and es :: "entry_ref \<Rightarrow> Entry" and currentEntry :: entry_ref
    and path :: string and c :: char and cs p entryName rest :: string
    and childPtr :: "entry_ref option" and child :: entry_ref and deleted :: bool
  assume path: "path = c # cs"
    and p: "p = (if c = CHR ''/'' then cs else path)"
    and nm: "entryName = takeWhile (\<lambda>c. c \<noteq> CHR ''/'') p"
    and rest: "rest = dropWhile (\<lambda>c. c \<noteq> CHR ''/'') p"
    and ne: "entryName \<noteq> []"
  have "length entryName + length rest = length p"
    unfolding nm rest by (metis length_append takeWhile_dropWhile_id)
  moreover have "0 < length entryName"
    using ne by simp
  moreover have "length p \<le> length path"
    using p path by simp
  ultimately have "length rest < length path"
    by linarith
  then show "((x, es, child, rest), x, es, currentEntry, path)
             \<in> measure (\<lambda>(x, es, currentEntry, path). length path)"
    by simp
qed

declare GoToEntry_loop.simps [simp del]

definition resTree_FindEntry ::
  "ext \<Rightarrow> (entry_ref \<Rightarrow> Entry) \<Rightarrow> entry_ref \<Rightarrow> string \<Rightarrow> entry_ref option option" where
  "resTree_FindEntry x es baseNamespace path =
     (if \<exists>c \<in> set path. c \<in> {CHR ''.'', CHR ''['', CHR '']''} then Some None
      else GoToEntry_loop x es baseNamespace path)"

definition resTree_GetEntryType :: "Entry \<Rightarrow> admin_EntryType" where
  "resTree_GetEntryType entryRef = entry_type entryRef"

text \<open>
  \<^verbatim>\<open>entryRef->u.resourcePtr\<close> followed: reading the pointer member while the union holds
  the flags, or following a null pointer, is undefined.
\<close>

definition deref_resourcePtr :: "Entry \<Rightarrow> res_ref option" where
  "deref_resourcePtr e = Option.bind (read_resourcePtr e) (\<lambda>p. p)"

text \<open>The same after \<^verbatim>\<open>LE_ASSERT(resTree_IsResource(resRef))\<close>.\<close>

definition asserted_resourcePtr :: "Entry \<Rightarrow> res_ref option" where
  "asserted_resourcePtr e =
     do {
       isResource \<leftarrow> resTree_IsResource e;
       if isResource then deref_resourcePtr e else None
     }"

text \<open>
  The getters of \<^verbatim>\<open>resource.c\<close> behind the next functions (\<^verbatim>\<open>res_GetUnits\<close>,
  \<^verbatim>\<open>res_GetDataType\<close>, \<^verbatim>\<open>res_GetCurrentValue\<close>, \<^verbatim>\<open>res_HasDefault\<close>) read a field of
  the resource; for an Input or Output the data type is the one of
  \<^verbatim>\<open>ioPoint_GetDataType\<close>, and \<^verbatim>\<open>res_MarkOptional\<close> is \<^verbatim>\<open>ioPoint_MarkOptional\<close>.
\<close>

definition resTree_GetUnits :: "hub_state \<Rightarrow> entry_ref \<Rightarrow> string option" where
  "resTree_GetUnits st resRef =
     map_option (\<lambda>r. units (resources st r)) (asserted_resourcePtr (entries st resRef))"

definition resTree_GetDataType :: "hub_state \<Rightarrow> entry_ref \<Rightarrow> io_DataType option" where
  "resTree_GetDataType st resRef =
     map_option (\<lambda>r. ioPoint_GetDataType (resources st r))
       (asserted_resourcePtr (entries st resRef))"

definition resTree_GetCurrentValue :: "hub_state \<Rightarrow> entry_ref \<Rightarrow> DataSample option option" where
  "resTree_GetCurrentValue st resRef =
     do {
       isResource \<leftarrow> resTree_IsResource (entries st resRef);
       if \<not> isResource then Some None
       else map_option (\<lambda>r. currentValue (resources st r))
              (deref_resourcePtr (entries st resRef))
     }"

definition resTree_HasDefault :: "hub_state \<Rightarrow> entry_ref \<Rightarrow> bool option" where
  "resTree_HasDefault st resEntry =
     map_option (\<lambda>r. defaultValue (resources st r) \<noteq> None)
       (deref_resourcePtr (entries st resEntry))"

definition resTree_MarkOptional :: "hub_state \<Rightarrow> entry_ref \<Rightarrow> hub_state option" where
  "resTree_MarkOptional st resEntry =
     map_option
       (\<lambda>r. st\<lparr>resources := (resources st)(r := ioPoint_MarkOptional (resources st r))\<rparr>)
       (deref_resourcePtr (entries st resEntry))"

text \<open>
  \<^verbatim>\<open>CallResourceTreeChangeHandlers\<close>: the call to the admin service, recorded with the
  entry whose absolute path the code formats for it.
\<close>

definition CallResourceTreeChangeHandlers ::
  "hub_state \<Rightarrow> entry_ref \<Rightarrow> admin_EntryType \<Rightarrow> admin_ResourceOperationType \<Rightarrow> hub_state" where
  "CallResourceTreeChangeHandlers st entryRef entryType resourceOperationType =
     st\<lparr>log := log st @ [ResourceTreeChange entryRef entryType resourceOperationType]\<rparr>"

definition ReplaceResource ::
  "callees \<Rightarrow> hub_state \<Rightarrow> entry_ref \<Rightarrow> res_ref option \<Rightarrow> admin_EntryType \<Rightarrow> hub_state option" where
  "ReplaceResource cs st entryRef replacementPtr replacementType =
     do {
       st1 \<leftarrow>
         (if entry_type (entries st entryRef) \<noteq> ADMIN_ENTRY_TYPE_NAMESPACE
          then do {
            old \<leftarrow> read_resourcePtr (entries st entryRef);
            case old of
              None \<Rightarrow> Some st
            | Some r \<Rightarrow>
                Some (st\<lparr>resources :=
                            res_MoveAdminSettings cs (resources st) r replacementPtr
                              replacementType,
                          log := log st @ [ReleaseResource r]\<rparr>)
          }
          else Some st);
       Some (st1\<lparr>entries := (entries st1)
                   (entryRef := (entries st1 entryRef)
                      \<lparr>entry_type := replacementType, u := U_resourcePtr replacementPtr\<rparr>)\<rparr>)
     }"

text \<open>\<^verbatim>\<open>le_mem_Release\<close> of a null pointer is a fault.\<close>

definition resTree_DeleteIO :: "callees \<Rightarrow> hub_state \<Rightarrow> entry_ref \<Rightarrow> hub_state option" where
  "resTree_DeleteIO cs st entryRef =
     do {
       ioPtr \<leftarrow> read_resourcePtr (entries st entryRef);
       let st1 = CallResourceTreeChangeHandlers st entryRef (entry_type (entries st entryRef))
                   ADMIN_RESOURCE_REMOVED
       in if res_HasAdminSettings cs (resources st1) ioPtr
          then
            let (placeholderPtr, rs) = res_CreatePlaceholder cs (resources st1) entryRef
            in ReplaceResource cs (st1\<lparr>resources := rs\<rparr>) entryRef placeholderPtr
                 ADMIN_ENTRY_TYPE_PLACEHOLDER
          else
            (case ioPtr of
               None \<Rightarrow> None
             | Some r \<Rightarrow>
                 Some (st1\<lparr>entries := (entries st1)
                             (entryRef := (entries st1 entryRef)
                                \<lparr>entry_type := ADMIN_ENTRY_TYPE_NAMESPACE, u := U_flags 0\<rparr>),
                           log := log st1 @ [ReleaseResource r, RecordNodeDeletion entryRef,
                                             ReleaseEntry entryRef]\<rparr>))
     }"

subsection \<open>Routing\<close>

text \<open>
  Modelled from the spec: \<^verbatim>\<open>res_SetSource\<close> of \<^verbatim>\<open>resource.c\<close>, which is not among the
  sources. "Setting a source: if the graph walk from the proposed source back through source
  links ever reaches the destination, reject with duplicate; otherwise install the link
  (replacing any existing)." The walk need not end on a graph that has a cycle elsewhere, so
  it is a partial function: \<open>None\<close> is a walk that never returns.
\<close>

partial_function (option) source_walk ::
  "(res_ref \<Rightarrow> Resource) \<Rightarrow> res_ref \<Rightarrow> res_ref option \<Rightarrow> bool option" where
  "source_walk rs destPtr upstream =
     (case upstream of
        None \<Rightarrow> Some False
      | Some r \<Rightarrow> if r = destPtr then Some True else source_walk rs destPtr (srcPtr (rs r)))"

definition res_SetSource ::
  "(res_ref \<Rightarrow> Resource) \<Rightarrow> res_ref \<Rightarrow> res_ref option
   \<Rightarrow> (le_result \<times> (res_ref \<Rightarrow> Resource)) option" where
  "res_SetSource rs destPtr srcResPtr =
     do {
       loop \<leftarrow> source_walk rs destPtr srcResPtr;
       if loop then Some (LE_DUPLICATE, rs)
       else Some (LE_OK, rs(destPtr := (rs destPtr)\<lparr>srcPtr := srcResPtr\<rparr>))
     }"

text \<open>\<^verbatim>\<open>resTree_SetSource\<close>, from \<^verbatim>\<open>resTree.c\<close>: two assertions and the delegation.\<close>

definition resTree_SetSource ::
  "hub_state \<Rightarrow> entry_ref \<Rightarrow> entry_ref option \<Rightarrow> (le_result \<times> hub_state) option" where
  "resTree_SetSource st destEntry srcEntry =
     (if entry_type (entries st destEntry) = ADMIN_ENTRY_TYPE_NAMESPACE then None
      else if entry_type (entries st destEntry) = ADMIN_ENTRY_TYPE_NONE then None
      else do {
        destPtr \<leftarrow> deref_resourcePtr (entries st destEntry);
        srcResPtr \<leftarrow> (case srcEntry of
                         None \<Rightarrow> Some None
                       | Some e \<Rightarrow> read_resourcePtr (entries st e));
        (res, rs) \<leftarrow> res_SetSource (resources st) destPtr srcResPtr;
        Some (res, st\<lparr>resources := rs\<rparr>)
      })"

text \<open>Following source links from \<open>a\<close>, zero or more times, reaches \<open>b\<close>.\<close>

inductive source_reaches :: "(res_ref \<Rightarrow> Resource) \<Rightarrow> res_ref \<Rightarrow> res_ref \<Rightarrow> bool"
  for rs :: "res_ref \<Rightarrow> Resource" where
  here: "source_reaches rs a a"
| step: "srcPtr (rs a) = Some a' \<Longrightarrow> source_reaches rs a' b \<Longrightarrow> source_reaches rs a b"

text \<open>The chain of source links from \<open>a\<close> ends at a resource without a source.\<close>

inductive source_chain_ends :: "(res_ref \<Rightarrow> Resource) \<Rightarrow> res_ref \<Rightarrow> bool"
  for rs :: "res_ref \<Rightarrow> Resource" where
  last: "srcPtr (rs a) = None \<Longrightarrow> source_chain_ends rs a"
| more: "srcPtr (rs a) = Some a' \<Longrightarrow> source_chain_ends rs a' \<Longrightarrow> source_chain_ends rs a"

code_pred source_reaches .

code_pred source_chain_ends .

subsection \<open>The handler registry\<close>

text \<open>
  Modelled from the spec: \<^verbatim>\<open>handler_Add\<close> and \<^verbatim>\<open>handler_Call\<close> of \<^verbatim>\<open>handler.c\<close> and
  \<^verbatim>\<open>res_AddPushHandler\<close> of \<^verbatim>\<open>resource.c\<close>, which are not among the sources (only
  \<^verbatim>\<open>handler.h\<close> is). The registry keeps, per resource, the list of registered push
  callbacks in registration order; adding fails with \<^verbatim>\<open>NULL\<close> when no handler can be
  allocated. Dispatch reaches the handlers "whose data-type matches or is a universal
  (string/JSON) handler"; the callback receives the sample's timestamp and value (in the
  handler's encoding, which the event does not spell out).
\<close>

definition handler_Add ::
  "ext \<Rightarrow> hub_state \<Rightarrow> res_ref \<Rightarrow> io_DataType \<Rightarrow> nat \<Rightarrow> nat \<Rightarrow> handler_ref option \<times> hub_state" where
  "handler_Add x st r dt cb ctx =
     (if handler_pool_ok x
      then
        let h = nextHandlerRef st
        in (Some h,
            st\<lparr>handlerPool := (handlerPool st)
                  (h := \<lparr>handler_dataType = dt, callbackPtr = cb, contextPtr = ctx\<rparr>),
               nextHandlerRef := h + 1,
               resources := (resources st)
                  (r := (resources st r)
                     \<lparr>pushHandlerList := pushHandlerList (resources st r) @ [h]\<rparr>)\<rparr>)
      else (None, st))"

definition res_AddPushHandler ::
  "ext \<Rightarrow> hub_state \<Rightarrow> res_ref \<Rightarrow> io_DataType \<Rightarrow> nat \<Rightarrow> nat \<Rightarrow> handler_ref option \<times> hub_state" where
  "res_AddPushHandler x st r dt cb ctx = handler_Add x st r dt cb ctx"

definition handler_Call :: "hub_state \<Rightarrow> handler_ref \<Rightarrow> io_DataType \<Rightarrow> DataSample \<Rightarrow> hub_state" where
  "handler_Call st handlerRef dt sampleRef =
     (let wanted = handler_dataType (handlerPool st handlerRef)
      in if wanted = dt \<or> wanted = IO_DATA_TYPE_STRING \<or> wanted = IO_DATA_TYPE_JSON
         then st\<lparr>log := log st @ [PushCallback handlerRef sampleRef]\<rparr>
         else st)"

text \<open>\<^verbatim>\<open>resTree_AddPushHandler\<close>, from \<^verbatim>\<open>resTree.c\<close>.\<close>

definition resTree_AddPushHandler ::
  "ext \<Rightarrow> hub_state \<Rightarrow> entry_ref \<Rightarrow> io_DataType \<Rightarrow> nat \<Rightarrow> nat
   \<Rightarrow> (handler_ref option \<times> hub_state) option" where
  "resTree_AddPushHandler x st resRef dt cb ctx =
     map_option (\<lambda>r. res_AddPushHandler x st r dt cb ctx)
       (deref_resourcePtr (entries st resRef))"

subsection \<open>The I/O service (ioService.c)\<close>

text \<open>
  The client's namespace, \<^verbatim>\<open>hub_GetClientNamespace(io_GetClientSessionRef())\<close>, is the
  argument \<open>nsRef\<close> of every function of the service.
\<close>

definition FindResource ::
  "ext \<Rightarrow> hub_state \<Rightarrow> entry_ref option \<Rightarrow> string \<Rightarrow> entry_ref option option" where
  "FindResource x st nsRef path =
     do {
       entryRef \<leftarrow> (case nsRef of
                      None \<Rightarrow> Some None
                    | Some ns \<Rightarrow> resTree_FindEntry x (entries st) ns path);
       case entryRef of
         None \<Rightarrow> Some None
       | Some e \<Rightarrow>
           let entryType = resTree_GetEntryType (entries st e)
           in if entryType \<noteq> ADMIN_ENTRY_TYPE_INPUT \<and> entryType \<noteq> ADMIN_ENTRY_TYPE_OUTPUT
              then Some None
              else Some (Some e)
     }"

definition io_CreateInput ::
  "callees \<Rightarrow> ext \<Rightarrow> hub_state \<Rightarrow> entry_ref option \<Rightarrow> string \<Rightarrow> io_DataType \<Rightarrow> string
   \<Rightarrow> (le_result \<times> hub_state) option" where
  "io_CreateInput cs x st nsRef path dt un =
     do {
       resRef \<leftarrow> (case nsRef of
                    None \<Rightarrow> Some None
                  | Some ns \<Rightarrow> resTree_FindEntry x (entries st) ns path);
       let create = Some (resTree_CreateInput cs st nsRef path dt un)
       in case resRef of
            None \<Rightarrow> create
          | Some r \<Rightarrow>
              (case resTree_GetEntryType (entries st r) of
                 ADMIN_ENTRY_TYPE_INPUT \<Rightarrow>
                   do {
                     declared \<leftarrow> resTree_GetDataType st r;
                     if declared \<noteq> dt then Some (LE_DUPLICATE, st)
                     else do {
                       haveUnits \<leftarrow> resTree_GetUnits st r;
                       if un \<noteq> haveUnits then Some (LE_DUPLICATE, st) else Some (LE_OK, st)
                     }
                   }
               | ADMIN_ENTRY_TYPE_OUTPUT \<Rightarrow> Some (LE_DUPLICATE, st)
               | ADMIN_ENTRY_TYPE_OBSERVATION \<Rightarrow> Some (LE_DUPLICATE, st)
               | ADMIN_ENTRY_TYPE_NAMESPACE \<Rightarrow> create
               | ADMIN_ENTRY_TYPE_PLACEHOLDER \<Rightarrow> create
               | ADMIN_ENTRY_TYPE_NONE \<Rightarrow> None)
     }"

definition io_CreateOutput ::
  "callees \<Rightarrow> ext \<Rightarrow> hub_state \<Rightarrow> entry_ref option \<Rightarrow> string \<Rightarrow> io_DataType \<Rightarrow> string
   \<Rightarrow> (le_result \<times> hub_state) option" where
  "io_CreateOutput cs x st nsRef path dt un =
     do {
       resRef \<leftarrow> (case nsRef of
                    None \<Rightarrow> Some None
                  | Some ns \<Rightarrow> resTree_FindEntry x (entries st) ns path);
       let create = Some (resTree_CreateOutput cs st nsRef path dt un)
       in case resRef of
            None \<Rightarrow> create
          | Some r \<Rightarrow>
              (case resTree_GetEntryType (entries st r) of
                 ADMIN_ENTRY_TYPE_OUTPUT \<Rightarrow>
                   do {
                     declared \<leftarrow> resTree_GetDataType st r;
                     if declared \<noteq> dt then Some (LE_DUPLICATE, st)
                     else do {
                       haveUnits \<leftarrow> resTree_GetUnits st r;
                       if un \<noteq> haveUnits then Some (LE_DUPLICATE, st) else Some (LE_OK, st)
                     }
                   }
               | ADMIN_ENTRY_TYPE_INPUT \<Rightarrow> Some (LE_DUPLICATE, st)
               | ADMIN_ENTRY_TYPE_OBSERVATION \<Rightarrow> Some (LE_DUPLICATE, st)
               | ADMIN_ENTRY_TYPE_NAMESPACE \<Rightarrow> create
               | ADMIN_ENTRY_TYPE_PLACEHOLDER \<Rightarrow> create
               | ADMIN_ENTRY_TYPE_NONE \<Rightarrow> None)
     }"

definition io_DeleteResource ::
  "callees \<Rightarrow> ext \<Rightarrow> hub_state \<Rightarrow> entry_ref option \<Rightarrow> string \<Rightarrow> (le_result \<times> hub_state) option" where
  "io_DeleteResource cs x st nsRef path =
     do {
       resRef \<leftarrow> FindResource x st nsRef path;
       case resRef of
         Some r \<Rightarrow> map_option (\<lambda>st'. (LE_OK, st')) (resTree_DeleteIO cs st r)
       | None \<Rightarrow> Some (LE_NOT_FOUND, st)
     }"

text \<open>
  The five push functions differ in the sample they create; the rest of their bodies is
  \<open>push_created\<close>.
\<close>

definition push_created ::
  "callees \<Rightarrow> hub_state \<Rightarrow> entry_ref \<Rightarrow> io_DataType \<Rightarrow> DataSample option
   \<Rightarrow> le_result \<times> hub_state" where
  "push_created cs st resRef dt sampleRef =
     (case sampleRef of
        Some s \<Rightarrow> resTree_Push cs st resRef dt s
      | None \<Rightarrow> (LE_NO_MEMORY, st))"

definition io_PushTrigger ::
  "callees \<Rightarrow> ext \<Rightarrow> hub_state \<Rightarrow> entry_ref option \<Rightarrow> string \<Rightarrow> double
   \<Rightarrow> (le_result \<times> hub_state) option" where
  "io_PushTrigger cs x st nsRef path ts =
     do {
       resRef \<leftarrow> FindResource x st nsRef path;
       case resRef of
         None \<Rightarrow> Some (LE_NOT_FOUND, st)
       | Some r \<Rightarrow>
           Some (push_created cs st r IO_DATA_TYPE_TRIGGER (dataSample_CreateTrigger x ts))
     }"

definition io_PushBoolean ::
  "callees \<Rightarrow> ext \<Rightarrow> hub_state \<Rightarrow> entry_ref option \<Rightarrow> string \<Rightarrow> double \<Rightarrow> bool
   \<Rightarrow> (le_result \<times> hub_state) option" where
  "io_PushBoolean cs x st nsRef path ts v =
     do {
       resRef \<leftarrow> FindResource x st nsRef path;
       case resRef of
         None \<Rightarrow> Some (LE_NOT_FOUND, st)
       | Some r \<Rightarrow>
           Some (push_created cs st r IO_DATA_TYPE_BOOLEAN (dataSample_CreateBoolean x ts v))
     }"

definition io_PushNumeric ::
  "callees \<Rightarrow> ext \<Rightarrow> hub_state \<Rightarrow> entry_ref option \<Rightarrow> string \<Rightarrow> double \<Rightarrow> double
   \<Rightarrow> (le_result \<times> hub_state) option" where
  "io_PushNumeric cs x st nsRef path ts v =
     do {
       resRef \<leftarrow> FindResource x st nsRef path;
       case resRef of
         None \<Rightarrow> Some (LE_NOT_FOUND, st)
       | Some r \<Rightarrow>
           Some (push_created cs st r IO_DATA_TYPE_NUMERIC (dataSample_CreateNumeric x ts v))
     }"

definition io_PushString ::
  "callees \<Rightarrow> ext \<Rightarrow> hub_state \<Rightarrow> entry_ref option \<Rightarrow> string \<Rightarrow> double \<Rightarrow> string
   \<Rightarrow> (le_result \<times> hub_state) option" where
  "io_PushString cs x st nsRef path ts v =
     do {
       resRef \<leftarrow> FindResource x st nsRef path;
       case resRef of
         None \<Rightarrow> Some (LE_NOT_FOUND, st)
       | Some r \<Rightarrow>
           Some (push_created cs st r IO_DATA_TYPE_STRING (dataSample_CreateString x ts v))
     }"

definition io_PushJson ::
  "callees \<Rightarrow> ext \<Rightarrow> hub_state \<Rightarrow> entry_ref option \<Rightarrow> string \<Rightarrow> double \<Rightarrow> string
   \<Rightarrow> (le_result \<times> hub_state) option" where
  "io_PushJson cs x st nsRef path ts v =
     do {
       resRef \<leftarrow> FindResource x st nsRef path;
       case resRef of
         None \<Rightarrow> Some (LE_NOT_FOUND, st)
       | Some r \<Rightarrow>
           if json_IsValid x v
           then Some (push_created cs st r IO_DATA_TYPE_JSON (dataSample_CreateJson x ts v))
           else Some (LE_BAD_PARAMETER, st)
     }"

definition AddPushHandler ::
  "ext \<Rightarrow> hub_state \<Rightarrow> entry_ref option \<Rightarrow> string \<Rightarrow> io_DataType \<Rightarrow> nat \<Rightarrow> nat
   \<Rightarrow> (handler_ref option \<times> hub_state) option" where
  "AddPushHandler x st nsRef path dt cb ctx =
     (if (case DHUB_IO_PUSH_HANDLER_COUNT x of
            None \<Rightarrow> False
          | Some limit \<Rightarrow> PushHandlerCount st \<ge> limit)
      then Some (None, st)
      else
        case nsRef of
          None \<Rightarrow> Some (None, st)
        | Some ns \<Rightarrow>
            do {
              found \<leftarrow> resTree_FindEntry x (entries st) ns path;
              case found of
                None \<Rightarrow> Some (None, st)
              | Some resRef \<Rightarrow>
                  let entryType = resTree_GetEntryType (entries st resRef)
                  in if entryType \<noteq> ADMIN_ENTRY_TYPE_INPUT
                        \<and> entryType \<noteq> ADMIN_ENTRY_TYPE_OUTPUT
                     then Some (None, st)
                     else do {
                       (handlerRef, st1) \<leftarrow> resTree_AddPushHandler x st resRef dt cb ctx;
                       case handlerRef of
                         None \<Rightarrow> Some (None, st1)
                       | Some h \<Rightarrow>
                           do {
                             sampleRef \<leftarrow> resTree_GetCurrentValue st1 resRef;
                             st2 \<leftarrow>
                               (case sampleRef of
                                  Some s \<Rightarrow>
                                    map_option (\<lambda>declared. handler_Call st1 h declared s)
                                      (resTree_GetDataType st1 resRef)
                                | None \<Rightarrow> Some st1);
                             Some (Some h,
                                   st2\<lparr>PushHandlerCount := PushHandlerCount st2 + 1\<rparr>)
                           }
                     }
            })"

definition io_AddTriggerPushHandler ::
  "ext \<Rightarrow> hub_state \<Rightarrow> entry_ref option \<Rightarrow> string \<Rightarrow> nat \<Rightarrow> nat
   \<Rightarrow> (handler_ref option \<times> hub_state) option" where
  "io_AddTriggerPushHandler x st nsRef path cb ctx =
     AddPushHandler x st nsRef path IO_DATA_TYPE_TRIGGER cb ctx"

definition io_AddBooleanPushHandler ::
  "ext \<Rightarrow> hub_state \<Rightarrow> entry_ref option \<Rightarrow> string \<Rightarrow> nat \<Rightarrow> nat
   \<Rightarrow> (handler_ref option \<times> hub_state) option" where
  "io_AddBooleanPushHandler x st nsRef path cb ctx =
     AddPushHandler x st nsRef path IO_DATA_TYPE_BOOLEAN cb ctx"

definition io_AddNumericPushHandler ::
  "ext \<Rightarrow> hub_state \<Rightarrow> entry_ref option \<Rightarrow> string \<Rightarrow> nat \<Rightarrow> nat
   \<Rightarrow> (handler_ref option \<times> hub_state) option" where
  "io_AddNumericPushHandler x st nsRef path cb ctx =
     AddPushHandler x st nsRef path IO_DATA_TYPE_NUMERIC cb ctx"

definition io_AddStringPushHandler ::
  "ext \<Rightarrow> hub_state \<Rightarrow> entry_ref option \<Rightarrow> string \<Rightarrow> nat \<Rightarrow> nat
   \<Rightarrow> (handler_ref option \<times> hub_state) option" where
  "io_AddStringPushHandler x st nsRef path cb ctx =
     AddPushHandler x st nsRef path IO_DATA_TYPE_STRING cb ctx"

definition io_AddJsonPushHandler ::
  "ext \<Rightarrow> hub_state \<Rightarrow> entry_ref option \<Rightarrow> string \<Rightarrow> nat \<Rightarrow> nat
   \<Rightarrow> (handler_ref option \<times> hub_state) option" where
  "io_AddJsonPushHandler x st nsRef path cb ctx =
     AddPushHandler x st nsRef path IO_DATA_TYPE_JSON cb ctx"

definition io_MarkOptional ::
  "ext \<Rightarrow> hub_state \<Rightarrow> entry_ref option \<Rightarrow> string \<Rightarrow> hub_state option" where
  "io_MarkOptional x st nsRef path =
     do {
       resRef \<leftarrow> FindResource x st nsRef path;
       case resRef of
         None \<Rightarrow> Some st
       | Some r \<Rightarrow>
           if resTree_GetEntryType (entries st r) \<noteq> ADMIN_ENTRY_TYPE_OUTPUT then Some st
           else resTree_MarkOptional st r
     }"

text \<open>
  The four default setters differ in the data type, in the sample they create and, for JSON,
  in the validity check before the sample is created.
\<close>

definition set_default ::
  "callees \<Rightarrow> ext \<Rightarrow> hub_state \<Rightarrow> entry_ref option \<Rightarrow> string \<Rightarrow> io_DataType \<Rightarrow> bool
   \<Rightarrow> DataSample option \<Rightarrow> (le_result \<times> hub_state) option" where
  "set_default cs x st nsRef path dt valid sampleRef =
     do {
       resRef \<leftarrow> FindResource x st nsRef path;
       case resRef of
         None \<Rightarrow> Some (LE_NOT_FOUND, st)
       | Some r \<Rightarrow>
           do {
             declared \<leftarrow> resTree_GetDataType st r;
             if declared \<noteq> dt then Some (LE_BAD_PARAMETER, st)
             else do {
               hasDefault \<leftarrow> resTree_HasDefault st r;
               if \<not> hasDefault
               then
                 if valid
                 then (case sampleRef of
                         Some s \<Rightarrow> Some (resTree_SetDefault cs st r dt s)
                       | None \<Rightarrow> Some (LE_NO_MEMORY, st))
                 else Some (LE_BAD_PARAMETER, st)
               else Some (LE_DUPLICATE, st)
             }
           }
     }"

definition io_SetBooleanDefault ::
  "callees \<Rightarrow> ext \<Rightarrow> hub_state \<Rightarrow> entry_ref option \<Rightarrow> string \<Rightarrow> bool
   \<Rightarrow> (le_result \<times> hub_state) option" where
  "io_SetBooleanDefault cs x st nsRef path v =
     set_default cs x st nsRef path IO_DATA_TYPE_BOOLEAN True
       (dataSample_CreateBoolean x (Finite 0) v)"

definition io_SetNumericDefault ::
  "callees \<Rightarrow> ext \<Rightarrow> hub_state \<Rightarrow> entry_ref option \<Rightarrow> string \<Rightarrow> double
   \<Rightarrow> (le_result \<times> hub_state) option" where
  "io_SetNumericDefault cs x st nsRef path v =
     set_default cs x st nsRef path IO_DATA_TYPE_NUMERIC True
       (dataSample_CreateNumeric x (Finite 0) v)"

definition io_SetStringDefault ::
  "callees \<Rightarrow> ext \<Rightarrow> hub_state \<Rightarrow> entry_ref option \<Rightarrow> string \<Rightarrow> string
   \<Rightarrow> (le_result \<times> hub_state) option" where
  "io_SetStringDefault cs x st nsRef path v =
     set_default cs x st nsRef path IO_DATA_TYPE_STRING True
       (dataSample_CreateString x (Finite 0) v)"

definition io_SetJsonDefault ::
  "callees \<Rightarrow> ext \<Rightarrow> hub_state \<Rightarrow> entry_ref option \<Rightarrow> string \<Rightarrow> string
   \<Rightarrow> (le_result \<times> hub_state) option" where
  "io_SetJsonDefault cs x st nsRef path v =
     set_default cs x st nsRef path IO_DATA_TYPE_JSON (json_IsValid x v)
       (dataSample_CreateJson x (Finite 0) v)"

text \<open>\<^verbatim>\<open>GetCurrentValue\<close>: the current value with the type check.\<close>

definition GetCurrentValue ::
  "hub_state \<Rightarrow> entry_ref \<Rightarrow> io_DataType \<Rightarrow> DataSample option option" where
  "GetCurrentValue st resRef dt =
     do {
       declared \<leftarrow> resTree_GetDataType st resRef;
       if declared \<noteq> dt then Some None else resTree_GetCurrentValue st resRef
     }"

text \<open>
  The getters return the result code and what they wrote through their output parameters:
  \<open>None\<close> when nothing was written.
\<close>

definition io_GetTimestamp ::
  "ext \<Rightarrow> hub_state \<Rightarrow> entry_ref option \<Rightarrow> string \<Rightarrow> (le_result \<times> double option) option" where
  "io_GetTimestamp x st nsRef path =
     do {
       resRef \<leftarrow> FindResource x st nsRef path;
       case resRef of
         None \<Rightarrow> Some (LE_NOT_FOUND, None)
       | Some r \<Rightarrow>
           do {
             cur \<leftarrow> resTree_GetCurrentValue st r;
             case cur of
               None \<Rightarrow> Some (LE_UNAVAILABLE, None)
             | Some s \<Rightarrow> Some (LE_OK, Some (dataSample_GetTimestamp s))
           }
     }"

definition io_GetBoolean ::
  "ext \<Rightarrow> hub_state \<Rightarrow> entry_ref option \<Rightarrow> string
   \<Rightarrow> (le_result \<times> (double \<times> bool) option) option" where
  "io_GetBoolean x st nsRef path =
     do {
       resRef \<leftarrow> FindResource x st nsRef path;
       case resRef of
         None \<Rightarrow> Some (LE_NOT_FOUND, None)
       | Some r \<Rightarrow>
           do {
             cur \<leftarrow> GetCurrentValue st r IO_DATA_TYPE_BOOLEAN;
             case cur of
               None \<Rightarrow> Some (LE_UNAVAILABLE, None)
             | Some s \<Rightarrow>
                 map_option (\<lambda>v. (LE_OK, Some (dataSample_GetTimestamp s, v)))
                   (dataSample_GetBoolean s)
           }
     }"

definition io_GetNumeric ::
  "ext \<Rightarrow> hub_state \<Rightarrow> entry_ref option \<Rightarrow> string
   \<Rightarrow> (le_result \<times> (double \<times> double) option) option" where
  "io_GetNumeric x st nsRef path =
     do {
       resRef \<leftarrow> FindResource x st nsRef path;
       case resRef of
         None \<Rightarrow> Some (LE_NOT_FOUND, None)
       | Some r \<Rightarrow>
           do {
             cur \<leftarrow> GetCurrentValue st r IO_DATA_TYPE_NUMERIC;
             case cur of
               None \<Rightarrow> Some (LE_UNAVAILABLE, None)
             | Some s \<Rightarrow>
                 map_option (\<lambda>v. (LE_OK, Some (dataSample_GetTimestamp s, v)))
                   (dataSample_GetNumeric s)
           }
     }"

definition io_GetString ::
  "ext \<Rightarrow> hub_state \<Rightarrow> entry_ref option \<Rightarrow> string \<Rightarrow> nat
   \<Rightarrow> (le_result \<times> (double \<times> string) option) option" where
  "io_GetString x st nsRef path valueSize =
     do {
       resRef \<leftarrow> FindResource x st nsRef path;
       case resRef of
         None \<Rightarrow> Some (LE_NOT_FOUND, None)
       | Some r \<Rightarrow>
           do {
             cur \<leftarrow> GetCurrentValue st r IO_DATA_TYPE_STRING;
             case cur of
               None \<Rightarrow> Some (LE_UNAVAILABLE, None)
             | Some s \<Rightarrow>
                 map_option
                   (\<lambda>v. let (res, copied) = le_utf8_Copy x v valueSize
                        in (res, Some (dataSample_GetTimestamp s, copied)))
                   (dataSample_GetString s)
           }
     }"

definition io_GetJson ::
  "ext \<Rightarrow> hub_state \<Rightarrow> entry_ref option \<Rightarrow> string \<Rightarrow> nat
   \<Rightarrow> (le_result \<times> (double \<times> string) option) option" where
  "io_GetJson x st nsRef path valueSize =
     do {
       resRef \<leftarrow> FindResource x st nsRef path;
       case resRef of
         None \<Rightarrow> Some (LE_NOT_FOUND, None)
       | Some r \<Rightarrow>
           do {
             cur \<leftarrow> resTree_GetCurrentValue st r;
             case cur of
               None \<Rightarrow> Some (LE_UNAVAILABLE, None)
             | Some s \<Rightarrow>
                 map_option
                   (\<lambda>declared. let (res, text) = dataSample_ConvertToJson x s declared valueSize
                           in (res, Some (dataSample_GetTimestamp s, text)))
                   (resTree_GetDataType st r)
           }
     }"

subsection \<open>A concrete hub\<close>

text \<open>
  One instance of the parameters and one small tree, for evaluating the definitions:
  the client namespace \<open>/app\<close> (entry 1) holds the tombstone \<open>old\<close>, the numeric Input
  \<open>temp\<close> (units \<open>degC\<close>, with a current and a default value), the tombstone \<open>gone\<close>, the
  Boolean Output \<open>led\<close> (no value yet), the Observation \<open>obs\<close> and the Placeholder \<open>cfg\<close>.
\<close>

definition hub_ext :: ext where
  "hub_ext =
     \<lparr>HUB_MAX_STRING_BYTES = 1024, HUB_MAX_ENTRY_NAME_BYTES = 32, sizeof_ptr = 8,
      clock_now = Finite 1700000000, sample_pool_ok = True,
      json_ConvertToBoolean = (\<lambda>s. s = ''true''),
      json_ConvertToNumber = (\<lambda>s. NaN),
      json_IsValid = (\<lambda>s. s \<noteq> []),
      printf_lf = (\<lambda>d. ''0.000000''),
      RES_FLAG_NEW = 1, RES_FLAG_RELEVANT = 2, RES_FLAG_DELETED = 4,
      DHUB_IO_PUSH_HANDLER_COUNT = None,
      handler_pool_ok = True,
      le_utf8_Copy = (\<lambda>s n. if length s < n then (LE_OK, s) else (LE_OVERFLOW, take (n - 1) s)),
      dataSample_ConvertToJson = (\<lambda>s dt n. (LE_OVERFLOW, []))\<rparr>"

definition blank_resource :: Resource where
  "blank_resource =
     \<lparr>units = [], dataType = IO_DATA_TYPE_TRIGGER, isMandatory = False, currentValue = None,
      defaultValue = None, srcPtr = None, pushHandlerList = []\<rparr>"

definition blank_entry :: Entry where
  "blank_entry =
     \<lparr>parentPtr = None, name = [], childList = [], entry_type = ADMIN_ENTRY_TYPE_NAMESPACE,
      u = U_flags 0\<rparr>"

definition hub_callees :: callees where
  "hub_callees =
     \<lparr>res_HasAdminSettings =
        (\<lambda>rs p. case p of None \<Rightarrow> False | Some r \<Rightarrow> defaultValue (rs r) \<noteq> None),
      res_CreatePlaceholder = (\<lambda>rs e. (Some 20, rs(20 := blank_resource))),
      res_MoveAdminSettings =
        (\<lambda>rs old new t.
           case new of
             None \<Rightarrow> rs
           | Some n \<Rightarrow> rs(n := (rs n)\<lparr>defaultValue := defaultValue (rs old)\<rparr>)),
      resTree_CreateInput = (\<lambda>st ns path dt un. (LE_FAULT, st)),
      resTree_CreateOutput = (\<lambda>st ns path dt un. (LE_FAULT, st)),
      resTree_Push = (\<lambda>st e dt s. (LE_OK, st)),
      resTree_SetDefault =
        (\<lambda>st e dt s.
           case deref_resourcePtr (entries st e) of
             None \<Rightarrow> (LE_FAULT, st)
           | Some r \<Rightarrow>
               (LE_OK,
                st\<lparr>resources := (resources st)
                      (r := (resources st r)\<lparr>defaultValue := Some s\<rparr>)\<rparr>))\<rparr>"

definition temp_sample :: DataSample where
  "temp_sample = \<lparr>timestamp = Finite 1000, sample_val = NumericValue (Finite 21.5)\<rparr>"

definition hub_entries :: "entry_ref \<Rightarrow> Entry" where
  "hub_entries =
     (\<lambda>_. blank_entry)
     (0 := blank_entry\<lparr>childList := [1]\<rparr>,
      1 := blank_entry\<lparr>parentPtr := Some 0, name := ''app'', childList := [4, 2, 7, 3, 5, 6]\<rparr>,
      2 := \<lparr>parentPtr = Some 1, name = ''temp'', childList = [],
            entry_type = ADMIN_ENTRY_TYPE_INPUT, u = U_resourcePtr (Some 10)\<rparr>,
      3 := \<lparr>parentPtr = Some 1, name = ''led'', childList = [],
            entry_type = ADMIN_ENTRY_TYPE_OUTPUT, u = U_resourcePtr (Some 11)\<rparr>,
      4 := \<lparr>parentPtr = Some 1, name = ''old'', childList = [],
            entry_type = ADMIN_ENTRY_TYPE_NAMESPACE, u = U_flags 4\<rparr>,
      5 := \<lparr>parentPtr = Some 1, name = ''obs'', childList = [],
            entry_type = ADMIN_ENTRY_TYPE_OBSERVATION, u = U_resourcePtr (Some 12)\<rparr>,
      6 := \<lparr>parentPtr = Some 1, name = ''cfg'', childList = [],
            entry_type = ADMIN_ENTRY_TYPE_PLACEHOLDER, u = U_resourcePtr (Some 13)\<rparr>,
      7 := \<lparr>parentPtr = Some 1, name = ''gone'', childList = [],
            entry_type = ADMIN_ENTRY_TYPE_NAMESPACE, u = U_flags 4\<rparr>)"

definition hub_resources :: "res_ref \<Rightarrow> Resource" where
  "hub_resources =
     (\<lambda>_. blank_resource)
     (10 := \<lparr>units = ''degC'', dataType = IO_DATA_TYPE_NUMERIC, isMandatory = False,
             currentValue = Some temp_sample, defaultValue = Some temp_sample, srcPtr = None,
             pushHandlerList = []\<rparr>,
      11 := \<lparr>units = [], dataType = IO_DATA_TYPE_BOOLEAN, isMandatory = True,
             currentValue = None, defaultValue = None, srcPtr = Some 12,
             pushHandlerList = []\<rparr>,
      12 := blank_resource\<lparr>dataType := IO_DATA_TYPE_NUMERIC, srcPtr := Some 10\<rparr>)"

definition hub :: hub_state where
  "hub =
     \<lparr>entries = hub_entries, resources = hub_resources,
      handlerPool = (\<lambda>_. \<lparr>handler_dataType = IO_DATA_TYPE_TRIGGER, callbackPtr = 0,
                           contextPtr = 0\<rparr>),
      nextHandlerRef = 1, PushHandlerCount = 0, log = []\<rparr>"

section \<open>Properties\<close>

subsection \<open>Evaluation of the concrete hub\<close>

lemmas hub_eval =
  hub_def hub_entries_def hub_resources_def hub_ext_def hub_callees_def blank_entry_def
  blank_resource_def temp_sample_def

lemmas tree_eval =
  resTree_FindEntry_def GoToEntry_loop.simps resTree_FindChildEx_def resTree_FindChild_def
  strncmp_eq_def resTree_IsDeleted_def resTree_IsResource_def read_flags_def read_resourcePtr_def
  resTree_GetFirstChildEx_def resTree_GetFirstChild_def resTree_GetNextSiblingEx_def
  resTree_GetNextSibling_def zombie_filter_def le_dls_Peek_def le_dls_PeekNext_def
  resTree_SetDeleted_def resTree_GetEntryType_def deref_resourcePtr_def asserted_resourcePtr_def

lemmas create_defs =
  dataSample_CreateTrigger_def dataSample_CreateBoolean_def dataSample_CreateNumeric_def
  dataSample_CreateString_def dataSample_CreateJson_def

lemmas get_defs =
  dataSample_GetBoolean_def dataSample_GetNumeric_def dataSample_GetString_def
  dataSample_GetJson_def dataSample_GetTimestamp_def

subsection \<open>Type coercion\<close>

lemma CreateSample_Some:
  "CreateSample x ts v = Some s \<Longrightarrow>
     sample_val s = v \<and> (timestamp s = ts \<or> (ts = IO_NOW \<and> timestamp s = clock_now x))"
  by (auto simp: CreateSample_def split: if_splits)

lemma coercion_defined:
  assumes "sample_type fromSample = fromType"
  shows "ioPoint_DoTypeCoercion x resPtr fromType fromSample \<noteq> None"
  using assms
  by (cases "dataType resPtr"; cases "sample_val fromSample")
     (auto simp: ioPoint_DoTypeCoercion_def get_defs Let_def)

lemma coercion_accepted:
  assumes "sample_type fromSample = fromType"
    and "ioPoint_DoTypeCoercion x resPtr fromType fromSample = Some (LE_OK, ty, s)"
  shows "ty = dataType resPtr \<and> sample_type s = dataType resPtr \<and>
         (timestamp s = timestamp fromSample \<or>
          (timestamp fromSample = IO_NOW \<and> timestamp s = clock_now x))"
  using assms
  by (cases "dataType resPtr"; cases "sample_val fromSample")
     (auto simp: ioPoint_DoTypeCoercion_def get_defs create_defs Let_def coercion_result_def
           dest!: CreateSample_Some split: option.splits if_splits)

text \<open>
  Claim C1. For every push into an Input or Output and every one of the 25 pairs of source
  type and declared type: coercion of a sample of the source type returns (it never reads a
  wrong union member), and if it returns \<^verbatim>\<open>LE_OK\<close> then the data type and the sample it
  hands on to become the resource's current value have the resource's declared type, and
  the sample's timestamp is the timestamp of the pushed sample (or the clock's "now" where the
  pushed timestamp is 0, which the sample factory replaces).
\<close>

theorem coercion_keeps_declared_type_and_timestamp:
  assumes "sample_type fromSample = fromType"
  shows "\<exists>res ty s.
           ioPoint_DoTypeCoercion x resPtr fromType fromSample = Some (res, ty, s) \<and>
           (res = LE_OK \<longrightarrow>
              ty = dataType resPtr \<and> sample_type s = dataType resPtr \<and>
              (timestamp s = timestamp fromSample \<or>
               (timestamp fromSample = IO_NOW \<and> timestamp s = clock_now x)))"
proof -
  obtain res ty s where r: "ioPoint_DoTypeCoercion x resPtr fromType fromSample = Some (res, ty, s)"
    using coercion_defined [OF assms, of x resPtr] by (metis not_None_eq prod_cases3)
  show ?thesis
    using r coercion_accepted [OF assms, of x resPtr ty s] by auto
qed

theorem coercion_keeps_declared_type_and_timestamp_witness:
  "sample_type temp_sample = IO_DATA_TYPE_NUMERIC \<and>
   ioPoint_DoTypeCoercion hub_ext (hub_resources 11) IO_DATA_TYPE_NUMERIC temp_sample =
     Some (LE_OK, IO_DATA_TYPE_BOOLEAN, \<lparr>timestamp = Finite 1000, sample_val = BooleanValue True\<rparr>) \<and>
   dataType (hub_resources 11) = IO_DATA_TYPE_BOOLEAN \<and>
   timestamp temp_sample = Finite 1000"
  using coercion_keeps_declared_type_and_timestamp
          [of temp_sample IO_DATA_TYPE_NUMERIC hub_ext "hub_resources 11"]
  by (simp add: hub_eval ioPoint_DoTypeCoercion_def get_defs create_defs CreateSample_def
        coercion_result_def IO_NOW_def)

subsection \<open>String to JSON\<close>

lemma NUL_neq_DQUOTE [simp]: "DQUOTE \<noteq> NUL" "NUL \<noteq> DQUOTE"
  by (simp_all add: NUL_def DQUOTE_def)

lemma takeWhile_stop:
  "NUL \<notin> set xs \<Longrightarrow> takeWhile (\<lambda>c. c \<noteq> NUL) (xs @ NUL # ys) = xs"
  by (induction xs) auto

lemma c_string_padded:
  "NUL \<notin> set xs \<Longrightarrow> c_string (xs @ replicate (Suc k) NUL) = xs"
  by (simp add: c_string_def takeWhile_stop)

lemma c_string_cut:
  assumes "p < length xs" and "NUL \<notin> set (take p xs)"
  shows "c_string (xs[p := NUL]) = take p xs"
proof -
  have "xs[p := NUL] = take p xs @ NUL # drop (Suc p) xs"
    using assms(1) by (rule upd_conv_take_nth_drop)
  then show ?thesis
    using assms(2) by (simp add: c_string_def takeWhile_stop)
qed

lemma quote_string_fits:
  assumes "length s + 3 \<le> HUB_MAX_STRING_BYTES x" and "NUL \<notin> set s"
  shows "quote_string x s = DQUOTE # s @ [DQUOTE]"
proof -
  define k where "k = HUB_MAX_STRING_BYTES x - (length s + 3)"
  have k: "HUB_MAX_STRING_BYTES x = length s + 2 + Suc k"
    using assms(1) by (simp add: k_def)
  have "c_string ((DQUOTE # s @ [DQUOTE]) @ replicate (Suc k) NUL) = DQUOTE # s @ [DQUOTE]"
    using assms(2) by (intro c_string_padded) simp
  then show ?thesis
    using k by (simp add: quote_string_def snprintf_def Let_def)
qed

lemma quote_string_overflow:
  assumes "HUB_MAX_STRING_BYTES x \<le> length s + 2" and "NUL \<notin> set s"
    and "sizeof_ptr x < HUB_MAX_STRING_BYTES x"
  shows "quote_string x s = take (sizeof_ptr x) (DQUOTE # s)"
proof -
  let ?n = "HUB_MAX_STRING_BYTES x" and ?p = "sizeof_ptr x"
  let ?full = "DQUOTE # s @ [DQUOTE]"
  let ?buf = "take (?n - 1) ?full @ replicate (?n - length (take (?n - 1) ?full)) NUL"
  have len: "length ?buf = ?n"
    using assms(1,3) by simp
  have tk: "take ?p ?buf = take ?p (DQUOTE # s)"
    using assms(1,3) by (simp add: min_def take_Cons')
  have "c_string (?buf[?p := NUL]) = take ?p ?buf"
  proof (rule c_string_cut)
    show "?p < length ?buf"
      using len assms(3) by simp
    show "NUL \<notin> set (take ?p ?buf)"
      unfolding tk using assms(2) by (auto dest: in_set_takeD)
  qed
  then show ?thesis
    using assms(1) unfolding tk by (simp add: quote_string_def snprintf_def Let_def)
qed

text \<open>
  Claim C6, as stated, fails: a string of 1022 bytes (within the 1023-byte limit) pushed to a
  JSON resource is accepted with the eight-byte text made of the opening quote and the first
  seven bytes of the string, not with the string wrapped in double quotes.
\<close>

theorem long_string_to_json_counterexample:
  "ioPoint_DoTypeCoercion hub_ext (blank_resource\<lparr>dataType := IO_DATA_TYPE_JSON\<rparr>)
     IO_DATA_TYPE_STRING
     \<lparr>timestamp = Finite 1000, sample_val = StringValue (replicate 1022 (CHR ''a''))\<rparr>
   = Some (LE_OK, IO_DATA_TYPE_JSON,
           \<lparr>timestamp = Finite 1000,
            sample_val = JsonValue (DQUOTE # replicate 7 (CHR ''a''))\<rparr>)
   \<and> DQUOTE # replicate 7 (CHR ''a'') \<noteq> DQUOTE # replicate 1022 (CHR ''a'') @ [DQUOTE]"
proof -
  have "quote_string hub_ext (replicate 1022 (CHR ''a'')) = DQUOTE # replicate 7 (CHR ''a'')"
    by (subst quote_string_overflow) (simp_all add: hub_ext_def NUL_def)
  moreover have "sample_pool_ok hub_ext" "Finite 1000 \<noteq> IO_NOW"
    by (simp_all add: hub_ext_def IO_NOW_def)
  moreover have "replicate 7 (CHR ''a'') \<noteq> replicate 1022 (CHR ''a'') @ [DQUOTE]"
  proof
    assume "replicate 7 (CHR ''a'') = replicate 1022 (CHR ''a'') @ [DQUOTE]"
    then have "length (replicate 7 (CHR ''a'')) = length (replicate 1022 (CHR ''a'') @ [DQUOTE])"
      by (rule arg_cong)
    then show False
      by simp
  qed
  ultimately show ?thesis
    by (simp add: ioPoint_DoTypeCoercion_def get_defs create_defs CreateSample_def
          coercion_result_def blank_resource_def)
qed

text \<open>
  Claim C6, amended. For every string sample without an inner terminator whose quoted form
  fits the conversion buffer (length at most \<^verbatim>\<open>HUB_MAX_STRING_BYTES - 3\<close>), pushed to a
  JSON-typed Input or Output: coercion returns, and if it returns \<^verbatim>\<open>LE_OK\<close> the value handed
  on is a JSON sample whose text is the source string wrapped in double quotes, with the
  timestamp of the pushed sample (or "now" where that timestamp is 0).
\<close>

theorem string_to_json_quotes_when_it_fits:
  assumes "dataType resPtr = IO_DATA_TYPE_JSON"
    and "sample_val fromSample = StringValue str"
    and "NUL \<notin> set str"
    and "length str + 3 \<le> HUB_MAX_STRING_BYTES x"
  shows "\<exists>res ty s.
           ioPoint_DoTypeCoercion x resPtr IO_DATA_TYPE_STRING fromSample = Some (res, ty, s) \<and>
           (res = LE_OK \<longrightarrow>
              ty = IO_DATA_TYPE_JSON \<and> sample_val s = JsonValue (DQUOTE # str @ [DQUOTE]) \<and>
              (timestamp s = timestamp fromSample \<or>
               (timestamp fromSample = IO_NOW \<and> timestamp s = clock_now x)))"
  using assms(1,2) quote_string_fits [OF assms(4,3)]
  by (cases "sample_pool_ok x")
     (auto simp: ioPoint_DoTypeCoercion_def get_defs create_defs CreateSample_def
        coercion_result_def Let_def)

theorem string_to_json_quotes_when_it_fits_witness:
  "dataType (blank_resource\<lparr>dataType := IO_DATA_TYPE_JSON\<rparr>) = IO_DATA_TYPE_JSON \<and>
   NUL \<notin> set ''on'' \<and> length ''on'' + 3 \<le> HUB_MAX_STRING_BYTES hub_ext \<and>
   ioPoint_DoTypeCoercion hub_ext (blank_resource\<lparr>dataType := IO_DATA_TYPE_JSON\<rparr>)
     IO_DATA_TYPE_STRING \<lparr>timestamp = Finite 1000, sample_val = StringValue ''on''\<rparr>
   = Some (LE_OK, IO_DATA_TYPE_JSON,
           \<lparr>timestamp = Finite 1000, sample_val = JsonValue (DQUOTE # ''on'' @ [DQUOTE])\<rparr>)"
proof -
  have pre: "NUL \<notin> set ''on''" "length ''on'' + 3 \<le> HUB_MAX_STRING_BYTES hub_ext"
    "sample_pool_ok hub_ext" "Finite 1000 \<noteq> IO_NOW"
    by (simp_all add: hub_ext_def NUL_def IO_NOW_def)
  show ?thesis
    using pre
      string_to_json_quotes_when_it_fits
        [of "blank_resource\<lparr>dataType := IO_DATA_TYPE_JSON\<rparr>"
            "\<lparr>timestamp = Finite 1000, sample_val = StringValue ''on''\<rparr>" "''on''" hub_ext]
    by (auto simp: ioPoint_DoTypeCoercion_def get_defs create_defs CreateSample_def
          coercion_result_def)
qed

subsection \<open>Tombstones\<close>

lemma IsDeleted_True_namespace:
  "resTree_IsDeleted x e = Some True \<Longrightarrow>
     entry_type e = ADMIN_ENTRY_TYPE_NAMESPACE \<and> resTree_IsResource e = Some False"
  by (auto simp: resTree_IsDeleted_def resTree_IsResource_def split: if_splits)

lemma IsResource_not_deleted:
  "resTree_IsResource e = Some True \<Longrightarrow> resTree_IsDeleted x e = Some False"
  by (auto simp: resTree_IsDeleted_def resTree_IsResource_def split: if_splits)

lemma SetDeleted_namespace:
  "resTree_SetDeleted x e = Some e' \<Longrightarrow>
     entry_type e' = ADMIN_ENTRY_TYPE_NAMESPACE \<and> resTree_IsResource e' = Some False"
  by (auto simp: resTree_SetDeleted_def resTree_IsResource_def
           split: if_splits Option.bind_splits)

lemma FindChildEx_loop_live:
  "FindChildEx_loop x es cs nm False = Some (Some c) \<Longrightarrow>
     c \<in> set cs \<and> resTree_IsDeleted x (es c) = Some False"
  by (induction cs) (auto split: Option.bind_splits if_splits)

lemma zombie_filter_live:
  "zombie_filter x es l False = Some (Some c) \<Longrightarrow> resTree_IsDeleted x (es c) = Some False"
  by (auto simp: zombie_filter_def split: option.splits Option.bind_splits if_splits)

text \<open>
  Claim C7. An entry that \<^verbatim>\<open>resTree_IsDeleted\<close> reports deleted is a Namespace entry and
  not a resource; an entry that is a resource is never reported deleted; \<^verbatim>\<open>resTree_SetDeleted\<close>
  returns only on a Namespace entry. \<^verbatim>\<open>resTree_FindChild\<close>, \<^verbatim>\<open>resTree_GetFirstChild\<close> and
  \<^verbatim>\<open>resTree_GetNextSibling\<close> never return a deleted entry, while in the concrete hub each of
  the \<^verbatim>\<open>withZombies\<close> variants returns one (the tombstones 4 and 7).
\<close>

theorem tombstones_are_namespaces_and_hidden:
  "(resTree_IsDeleted x e1 = Some True \<longrightarrow>
      entry_type e1 = ADMIN_ENTRY_TYPE_NAMESPACE \<and> resTree_IsResource e1 = Some False)
   \<and> (resTree_IsResource e2 = Some True \<longrightarrow> resTree_IsDeleted x e2 = Some False)
   \<and> (resTree_SetDeleted x e3 = Some e' \<longrightarrow>
      entry_type e' = ADMIN_ENTRY_TYPE_NAMESPACE \<and> resTree_IsResource e' = Some False)
   \<and> (resTree_FindChild x es nsRef nm = Some (Some c1) \<longrightarrow>
      resTree_IsDeleted x (es c1) = Some False)
   \<and> (resTree_GetFirstChild x es parent = Some (Some c2) \<longrightarrow>
      resTree_IsDeleted x (es c2) = Some False)
   \<and> (resTree_GetNextSibling x es entryRef = Some (Some c3) \<longrightarrow>
      resTree_IsDeleted x (es c3) = Some False)
   \<and> resTree_FindChildEx hub_ext hub_entries 1 ''old'' True = Some (Some 4)
   \<and> resTree_GetFirstChildEx hub_ext hub_entries 1 True = Some (Some 4)
   \<and> resTree_IsDeleted hub_ext (hub_entries 4) = Some True
   \<and> resTree_GetNextSiblingEx hub_ext hub_entries 2 True = Some (Some 7)
   \<and> resTree_IsDeleted hub_ext (hub_entries 7) = Some True"
proof (intro conjI impI)
  assume "resTree_IsDeleted x e1 = Some True"
  then show "entry_type e1 = ADMIN_ENTRY_TYPE_NAMESPACE" "resTree_IsResource e1 = Some False"
    by (simp_all add: IsDeleted_True_namespace)
next
  assume "resTree_IsResource e2 = Some True"
  then show "resTree_IsDeleted x e2 = Some False"
    by (rule IsResource_not_deleted)
next
  assume "resTree_SetDeleted x e3 = Some e'"
  then show "entry_type e' = ADMIN_ENTRY_TYPE_NAMESPACE" "resTree_IsResource e' = Some False"
    by (simp_all add: SetDeleted_namespace)
next
  assume "resTree_FindChild x es nsRef nm = Some (Some c1)"
  then show "resTree_IsDeleted x (es c1) = Some False"
    by (simp add: resTree_FindChild_def resTree_FindChildEx_def FindChildEx_loop_live)
next
  assume "resTree_GetFirstChild x es parent = Some (Some c2)"
  then show "resTree_IsDeleted x (es c2) = Some False"
    unfolding resTree_GetFirstChild_def resTree_GetFirstChildEx_def by (rule zombie_filter_live)
next
  assume "resTree_GetNextSibling x es entryRef = Some (Some c3)"
  then show "resTree_IsDeleted x (es c3) = Some False"
    unfolding resTree_GetNextSibling_def resTree_GetNextSiblingEx_def
    by (auto split: option.splits dest: zombie_filter_live)
qed (simp_all add: hub_eval tree_eval)

theorem tombstones_are_namespaces_and_hidden_witness:
  "resTree_IsDeleted hub_ext (hub_entries 4) = Some True
   \<and> entry_type (hub_entries 4) = ADMIN_ENTRY_TYPE_NAMESPACE
   \<and> resTree_IsResource (hub_entries 4) = Some False
   \<and> resTree_IsResource (hub_entries 2) = Some True
   \<and> resTree_IsDeleted hub_ext (hub_entries 2) = Some False
   \<and> resTree_SetDeleted hub_ext blank_entry = Some (blank_entry\<lparr>u := U_flags 4\<rparr>)
   \<and> resTree_IsResource (blank_entry\<lparr>u := U_flags 4\<rparr>) = Some False
   \<and> resTree_FindChild hub_ext hub_entries 1 ''temp'' = Some (Some 2)
   \<and> resTree_GetFirstChild hub_ext hub_entries 0 = Some (Some 1)
   \<and> resTree_IsDeleted hub_ext (hub_entries 1) = Some False
   \<and> resTree_GetNextSibling hub_ext hub_entries 3 = Some (Some 5)
   \<and> resTree_IsDeleted hub_ext (hub_entries 5) = Some False"
  using tombstones_are_namespaces_and_hidden
          [of hub_ext "hub_entries 4" "hub_entries 2" blank_entry
              "blank_entry\<lparr>u := U_flags 4\<rparr>" hub_entries 1 "''temp''" 2 0 1 3 5]
  by (simp add: hub_eval tree_eval)

subsection \<open>Looking up Inputs and Outputs\<close>

lemmas io_eval =
  FindResource_def resTree_GetDataType_def resTree_GetUnits_def resTree_GetCurrentValue_def
  resTree_HasDefault_def ioPoint_GetDataType_def GetCurrentValue_def

lemma resource_entry_views:
  assumes "entry_type e \<noteq> ADMIN_ENTRY_TYPE_NAMESPACE" and "u e = U_resourcePtr (Some r)"
  shows "asserted_resourcePtr e = Some r" "deref_resourcePtr e = Some r"
    "resTree_IsResource e = Some True"
  using assms
  by (simp_all add: asserted_resourcePtr_def deref_resourcePtr_def resTree_IsResource_def
        read_resourcePtr_def)

lemma FindResource_not_io:
  assumes "nsRef = Some ns"
    and "resTree_FindEntry x (entries st) ns path = Some found"
    and "found = None \<or> (\<exists>e. found = Some e \<and>
           entry_type (entries st e) \<in> {ADMIN_ENTRY_TYPE_NAMESPACE, ADMIN_ENTRY_TYPE_PLACEHOLDER,
                                          ADMIN_ENTRY_TYPE_OBSERVATION})"
  shows "FindResource x st nsRef path = Some None"
  using assms by (auto simp: FindResource_def resTree_GetEntryType_def)

text \<open>
  Claim C4. Where the path leads to an Input whose data type and units are the ones asked
  for, \<^verbatim>\<open>io_CreateInput\<close> returns \<^verbatim>\<open>LE_OK\<close> and the hub state is unchanged; where the
  Input has another type or other units, or where an Output or an Observation is there, it
  returns \<^verbatim>\<open>LE_DUPLICATE\<close> and the hub state is unchanged. The same holds for
  \<^verbatim>\<open>io_CreateOutput\<close> with Input and Output exchanged.
\<close>

theorem create_on_existing_resource:
  assumes "nsRef = Some ns"
    and "resTree_FindEntry x (entries st) ns path = Some (Some e)"
  shows "(entry_type (entries st e) = ADMIN_ENTRY_TYPE_INPUT \<and>
          u (entries st e) = U_resourcePtr (Some r) \<longrightarrow>
            io_CreateInput cs x st nsRef path dt un =
              Some (if dataType (resources st r) = dt \<and> units (resources st r) = un
                    then LE_OK else LE_DUPLICATE, st))
       \<and> (entry_type (entries st e) = ADMIN_ENTRY_TYPE_OUTPUT \<or>
          entry_type (entries st e) = ADMIN_ENTRY_TYPE_OBSERVATION \<longrightarrow>
            io_CreateInput cs x st nsRef path dt un = Some (LE_DUPLICATE, st))
       \<and> (entry_type (entries st e) = ADMIN_ENTRY_TYPE_OUTPUT \<and>
          u (entries st e) = U_resourcePtr (Some r) \<longrightarrow>
            io_CreateOutput cs x st nsRef path dt un =
              Some (if dataType (resources st r) = dt \<and> units (resources st r) = un
                    then LE_OK else LE_DUPLICATE, st))
       \<and> (entry_type (entries st e) = ADMIN_ENTRY_TYPE_INPUT \<or>
          entry_type (entries st e) = ADMIN_ENTRY_TYPE_OBSERVATION \<longrightarrow>
            io_CreateOutput cs x st nsRef path dt un = Some (LE_DUPLICATE, st))"
proof (intro conjI impI)
  assume a: "entry_type (entries st e) = ADMIN_ENTRY_TYPE_INPUT \<and>
             u (entries st e) = U_resourcePtr (Some r)"
  then have "asserted_resourcePtr (entries st e) = Some r"
    by (intro resource_entry_views) simp_all
  then show "io_CreateInput cs x st nsRef path dt un =
              Some (if dataType (resources st r) = dt \<and> units (resources st r) = un
                    then LE_OK else LE_DUPLICATE, st)"
    using assms a
    by (auto simp: io_CreateInput_def resTree_GetEntryType_def resTree_GetDataType_def
          resTree_GetUnits_def ioPoint_GetDataType_def)
next
  assume "entry_type (entries st e) = ADMIN_ENTRY_TYPE_OUTPUT \<or>
          entry_type (entries st e) = ADMIN_ENTRY_TYPE_OBSERVATION"
  then show "io_CreateInput cs x st nsRef path dt un = Some (LE_DUPLICATE, st)"
    using assms by (auto simp: io_CreateInput_def resTree_GetEntryType_def)
next
  assume a: "entry_type (entries st e) = ADMIN_ENTRY_TYPE_OUTPUT \<and>
             u (entries st e) = U_resourcePtr (Some r)"
  then have "asserted_resourcePtr (entries st e) = Some r"
    by (intro resource_entry_views) simp_all
  then show "io_CreateOutput cs x st nsRef path dt un =
              Some (if dataType (resources st r) = dt \<and> units (resources st r) = un
                    then LE_OK else LE_DUPLICATE, st)"
    using assms a
    by (auto simp: io_CreateOutput_def resTree_GetEntryType_def resTree_GetDataType_def
          resTree_GetUnits_def ioPoint_GetDataType_def)
next
  assume "entry_type (entries st e) = ADMIN_ENTRY_TYPE_INPUT \<or>
          entry_type (entries st e) = ADMIN_ENTRY_TYPE_OBSERVATION"
  then show "io_CreateOutput cs x st nsRef path dt un = Some (LE_DUPLICATE, st)"
    using assms by (auto simp: io_CreateOutput_def resTree_GetEntryType_def)
qed

theorem create_on_existing_resource_witness:
  "resTree_FindEntry hub_ext (entries hub) 1 ''temp'' = Some (Some 2)
   \<and> entry_type (entries hub 2) = ADMIN_ENTRY_TYPE_INPUT
   \<and> u (entries hub 2) = U_resourcePtr (Some 10)
   \<and> io_CreateInput hub_callees hub_ext hub (Some 1) ''temp'' IO_DATA_TYPE_NUMERIC ''degC''
       = Some (LE_OK, hub)
   \<and> io_CreateInput hub_callees hub_ext hub (Some 1) ''temp'' IO_DATA_TYPE_NUMERIC ''degF''
       = Some (LE_DUPLICATE, hub)
   \<and> io_CreateInput hub_callees hub_ext hub (Some 1) ''temp'' IO_DATA_TYPE_STRING ''degC''
       = Some (LE_DUPLICATE, hub)
   \<and> io_CreateOutput hub_callees hub_ext hub (Some 1) ''temp'' IO_DATA_TYPE_NUMERIC ''degC''
       = Some (LE_DUPLICATE, hub)"
proof -
  have 1: "resTree_FindEntry hub_ext (entries hub) 1 ''temp'' = Some (Some 2)"
    by (simp add: hub_eval tree_eval)
  have 2: "entry_type (entries hub 2) = ADMIN_ENTRY_TYPE_INPUT"
    "u (entries hub 2) = U_resourcePtr (Some 10)"
    "dataType (resources hub 10) = IO_DATA_TYPE_NUMERIC" "units (resources hub 10) = ''degC''"
    by (simp_all add: hub_eval)
  show ?thesis
    using 1 2
      create_on_existing_resource [OF refl 1, of 10 hub_callees IO_DATA_TYPE_NUMERIC "''degC''"]
      create_on_existing_resource [OF refl 1, of 10 hub_callees IO_DATA_TYPE_NUMERIC "''degF''"]
      create_on_existing_resource [OF refl 1, of 10 hub_callees IO_DATA_TYPE_STRING "''degC''"]
    by simp
qed

subsection \<open>Deleting an Input or Output\<close>

text \<open>
  Claim C5. Deleting an Input or Output entry that holds a resource always returns. It first
  notifies the resource tree change handlers of the removal. If the resource still has
  administrative settings the entry becomes a Placeholder holding the new placeholder
  resource (the old resource is released after its settings were moved). Otherwise the
  resource is released, the entry becomes a Namespace with cleared flags and no resource
  body, the deletion is recorded with the snapshot module, and the entry is released.
\<close>

theorem delete_io_placeholder_or_tombstone:
  assumes "entry_type (entries st e) = ADMIN_ENTRY_TYPE_INPUT \<or>
           entry_type (entries st e) = ADMIN_ENTRY_TYPE_OUTPUT"
    and "u (entries st e) = U_resourcePtr (Some r)"
  shows "\<exists>st'. resTree_DeleteIO cs st e = Some st' \<and>
           (if res_HasAdminSettings cs (resources st) (Some r)
            then entry_type (entries st' e) = ADMIN_ENTRY_TYPE_PLACEHOLDER \<and>
                 u (entries st' e) =
                   U_resourcePtr (fst (res_CreatePlaceholder cs (resources st) e)) \<and>
                 log st' = log st @
                   [ResourceTreeChange e (entry_type (entries st e)) ADMIN_RESOURCE_REMOVED,
                    ReleaseResource r]
            else entry_type (entries st' e) = ADMIN_ENTRY_TYPE_NAMESPACE \<and>
                 u (entries st' e) = U_flags 0 \<and>
                 resTree_IsResource (entries st' e) = Some False \<and>
                 log st' = log st @
                   [ResourceTreeChange e (entry_type (entries st e)) ADMIN_RESOURCE_REMOVED,
                    ReleaseResource r, RecordNodeDeletion e, ReleaseEntry e])"
  using assms
  by (auto simp: resTree_DeleteIO_def ReplaceResource_def CallResourceTreeChangeHandlers_def
        read_resourcePtr_def resTree_IsResource_def Let_def split: prod.splits)

theorem delete_io_placeholder_or_tombstone_witness:
  "entry_type (entries hub 3) = ADMIN_ENTRY_TYPE_OUTPUT
   \<and> u (entries hub 3) = U_resourcePtr (Some 11)
   \<and> \<not> res_HasAdminSettings hub_callees (resources hub) (Some 11)
   \<and> (\<exists>st'. resTree_DeleteIO hub_callees hub 3 = Some st' \<and>
         entry_type (entries st' 3) = ADMIN_ENTRY_TYPE_NAMESPACE \<and>
         u (entries st' 3) = U_flags 0 \<and>
         log st' = [ResourceTreeChange 3 ADMIN_ENTRY_TYPE_OUTPUT ADMIN_RESOURCE_REMOVED,
                    ReleaseResource 11, RecordNodeDeletion 3, ReleaseEntry 3])
   \<and> entry_type (entries hub 2) = ADMIN_ENTRY_TYPE_INPUT
   \<and> u (entries hub 2) = U_resourcePtr (Some 10)
   \<and> res_HasAdminSettings hub_callees (resources hub) (Some 10)
   \<and> (\<exists>st'. resTree_DeleteIO hub_callees hub 2 = Some st' \<and>
         entry_type (entries st' 2) = ADMIN_ENTRY_TYPE_PLACEHOLDER \<and>
         u (entries st' 2) = U_resourcePtr (Some 20) \<and>
         log st' = [ResourceTreeChange 2 ADMIN_ENTRY_TYPE_INPUT ADMIN_RESOURCE_REMOVED,
                    ReleaseResource 10])"
proof -
  have 3: "entry_type (entries hub 3) = ADMIN_ENTRY_TYPE_OUTPUT"
    "u (entries hub 3) = U_resourcePtr (Some 11)"
    "\<not> res_HasAdminSettings hub_callees (resources hub) (Some 11)"
    by (simp_all add: hub_eval)
  have 2: "entry_type (entries hub 2) = ADMIN_ENTRY_TYPE_INPUT"
    "u (entries hub 2) = U_resourcePtr (Some 10)"
    "res_HasAdminSettings hub_callees (resources hub) (Some 10)"
    by (simp_all add: hub_eval)
  have l: "log hub = []" "fst (res_CreatePlaceholder hub_callees (resources hub) 2) = Some 20"
    by (simp_all add: hub_eval)
  show ?thesis
    using 2 3 l
      delete_io_placeholder_or_tombstone [of hub 3 11 hub_callees]
      delete_io_placeholder_or_tombstone [of hub 2 10 hub_callees]
    by auto
qed

subsection \<open>Typed getters\<close>

text \<open>
  Claim C8, as stated, fails: \<^verbatim>\<open>io_GetBoolean\<close> on the numeric Input \<open>temp\<close> of the
  concrete hub returns \<^verbatim>\<open>LE_UNAVAILABLE\<close>, not \<^verbatim>\<open>LE_FORMAT_ERROR\<close>.
\<close>

theorem typed_getter_mismatch_counterexample:
  "FindResource hub_ext hub (Some 1) ''temp'' = Some (Some 2)
   \<and> resTree_GetDataType hub 2 = Some IO_DATA_TYPE_NUMERIC
   \<and> io_GetBoolean hub_ext hub (Some 1) ''temp'' = Some (LE_UNAVAILABLE, None)
   \<and> LE_UNAVAILABLE \<noteq> LE_FORMAT_ERROR"
  by (simp add: io_GetBoolean_def io_eval hub_eval tree_eval)

text \<open>
  Claim C8, amended. For every typed getter (\<^verbatim>\<open>io_GetBoolean\<close>, \<^verbatim>\<open>io_GetNumeric\<close>,
  \<^verbatim>\<open>io_GetString\<close>) called on an existing Input or Output whose declared data type differs
  from the getter's type, the call returns \<^verbatim>\<open>LE_UNAVAILABLE\<close> and writes no output
  parameter.
\<close>

theorem typed_getter_mismatch_unavailable:
  assumes "FindResource x st nsRef path = Some (Some e)"
    and "resTree_GetDataType st e = Some declared"
  shows "(declared \<noteq> IO_DATA_TYPE_BOOLEAN \<longrightarrow>
            io_GetBoolean x st nsRef path = Some (LE_UNAVAILABLE, None))
       \<and> (declared \<noteq> IO_DATA_TYPE_NUMERIC \<longrightarrow>
            io_GetNumeric x st nsRef path = Some (LE_UNAVAILABLE, None))
       \<and> (declared \<noteq> IO_DATA_TYPE_STRING \<longrightarrow>
            io_GetString x st nsRef path n = Some (LE_UNAVAILABLE, None))"
  using assms
  by (simp add: io_GetBoolean_def io_GetNumeric_def io_GetString_def GetCurrentValue_def)

theorem typed_getter_mismatch_unavailable_witness:
  "FindResource hub_ext hub (Some 1) ''temp'' = Some (Some 2)
   \<and> resTree_GetDataType hub 2 = Some IO_DATA_TYPE_NUMERIC
   \<and> io_GetBoolean hub_ext hub (Some 1) ''temp'' = Some (LE_UNAVAILABLE, None)
   \<and> io_GetString hub_ext hub (Some 1) ''temp'' 16 = Some (LE_UNAVAILABLE, None)
   \<and> io_GetNumeric hub_ext hub (Some 1) ''temp'' = Some (LE_OK, Some (Finite 1000, Finite 21.5))"
proof -
  have 1: "FindResource hub_ext hub (Some 1) ''temp'' = Some (Some 2)"
    by (simp add: io_eval hub_eval tree_eval)
  have 2: "resTree_GetDataType hub 2 = Some IO_DATA_TYPE_NUMERIC"
    by (simp add: io_eval hub_eval tree_eval)
  have 3: "io_GetNumeric hub_ext hub (Some 1) ''temp''
             = Some (LE_OK, Some (Finite 1000, Finite 21.5))"
    by (simp add: io_GetNumeric_def io_eval get_defs hub_eval tree_eval)
  show ?thesis
    using 1 2 3 typed_getter_mismatch_unavailable [OF 1 2, of 16] by simp
qed

subsection \<open>Paths that do not lead to an Input or Output\<close>

text \<open>
  Claim C9. Where the path resolves, in the client's namespace, to nothing or to a Namespace,
  a Placeholder or an Observation, every operation of the I/O service that looks the resource
  up gives the same answer in both cases: the pushes of all five types, the getters, delete
  and the default setters return \<^verbatim>\<open>LE_NOT_FOUND\<close>, \<^verbatim>\<open>io_MarkOptional\<close> does nothing, no
  output parameter is written, and the hub state (the entry with it) is unchanged.
\<close>

theorem not_io_is_not_found:
  assumes "nsRef = Some ns"
    and "resTree_FindEntry x (entries st) ns path = Some found"
    and "found = None \<or> (\<exists>e. found = Some e \<and>
           entry_type (entries st e) \<in> {ADMIN_ENTRY_TYPE_NAMESPACE, ADMIN_ENTRY_TYPE_PLACEHOLDER,
                                          ADMIN_ENTRY_TYPE_OBSERVATION})"
  shows "io_PushTrigger cs x st nsRef path ts = Some (LE_NOT_FOUND, st)
       \<and> io_PushBoolean cs x st nsRef path ts b = Some (LE_NOT_FOUND, st)
       \<and> io_PushNumeric cs x st nsRef path ts d = Some (LE_NOT_FOUND, st)
       \<and> io_PushString cs x st nsRef path ts str = Some (LE_NOT_FOUND, st)
       \<and> io_PushJson cs x st nsRef path ts str = Some (LE_NOT_FOUND, st)
       \<and> io_GetTimestamp x st nsRef path = Some (LE_NOT_FOUND, None)
       \<and> io_GetBoolean x st nsRef path = Some (LE_NOT_FOUND, None)
       \<and> io_GetNumeric x st nsRef path = Some (LE_NOT_FOUND, None)
       \<and> io_GetString x st nsRef path n = Some (LE_NOT_FOUND, None)
       \<and> io_GetJson x st nsRef path n = Some (LE_NOT_FOUND, None)
       \<and> io_DeleteResource cs x st nsRef path = Some (LE_NOT_FOUND, st)
       \<and> io_MarkOptional x st nsRef path = Some st
       \<and> io_SetBooleanDefault cs x st nsRef path b = Some (LE_NOT_FOUND, st)
       \<and> io_SetNumericDefault cs x st nsRef path d = Some (LE_NOT_FOUND, st)
       \<and> io_SetStringDefault cs x st nsRef path str = Some (LE_NOT_FOUND, st)
       \<and> io_SetJsonDefault cs x st nsRef path str = Some (LE_NOT_FOUND, st)"
proof -
  have nf: "FindResource x st nsRef path = Some None"
    using assms by (rule FindResource_not_io)
  show ?thesis
    by (simp add: nf io_PushTrigger_def io_PushBoolean_def io_PushNumeric_def io_PushString_def
          io_PushJson_def io_GetTimestamp_def io_GetBoolean_def io_GetNumeric_def
          io_GetString_def io_GetJson_def io_DeleteResource_def io_MarkOptional_def
          io_SetBooleanDefault_def io_SetNumericDefault_def io_SetStringDefault_def
          io_SetJsonDefault_def set_default_def)
qed

theorem not_io_is_not_found_witness:
  "resTree_FindEntry hub_ext (entries hub) 1 ''obs'' = Some (Some 5)
   \<and> entry_type (entries hub 5) = ADMIN_ENTRY_TYPE_OBSERVATION
   \<and> io_PushNumeric hub_callees hub_ext hub (Some 1) ''obs'' (Finite 5) (Finite 1)
       = Some (LE_NOT_FOUND, hub)
   \<and> io_GetNumeric hub_ext hub (Some 1) ''obs'' = Some (LE_NOT_FOUND, None)
   \<and> io_DeleteResource hub_callees hub_ext hub (Some 1) ''obs'' = Some (LE_NOT_FOUND, hub)
   \<and> io_MarkOptional hub_ext hub (Some 1) ''obs'' = Some hub
   \<and> io_SetNumericDefault hub_callees hub_ext hub (Some 1) ''obs'' (Finite 1)
       = Some (LE_NOT_FOUND, hub)"
proof -
  have 1: "resTree_FindEntry hub_ext (entries hub) 1 ''obs'' = Some (Some 5)"
    by (simp add: hub_eval tree_eval)
  have 2: "entry_type (entries hub 5) = ADMIN_ENTRY_TYPE_OBSERVATION"
    by (simp add: hub_eval)
  show ?thesis
    using 1 2 not_io_is_not_found [OF refl 1, of hub_callees "Finite 5" True "Finite 1" "''x''" 0]
    by simp
qed

subsection \<open>Default values\<close>

lemma set_default_has_default:
  assumes "FindResource x st nsRef path = Some (Some e)"
    and "resTree_GetDataType st e = Some declared"
    and "resTree_HasDefault st e = Some True"
  shows "set_default cs x st nsRef path dt valid sampleRef =
           Some (if declared = dt then LE_DUPLICATE else LE_BAD_PARAMETER, st)"
  using assms by (simp add: set_default_def)

lemma set_default_changes:
  assumes "set_default cs x st nsRef path dt valid sampleRef = Some (res, st')"
    and "st' \<noteq> st"
  shows "\<exists>e s. FindResource x st nsRef path = Some (Some e) \<and>
           resTree_GetDataType st e = Some dt \<and> resTree_HasDefault st e = Some False \<and>
           valid \<and> sampleRef = Some s \<and> (res, st') = resTree_SetDefault cs st e dt s"
  using assms
  by (auto simp: set_default_def split: option.splits Option.bind_splits if_splits)

text \<open>
  Claim C10, as stated, fails: the numeric Input \<open>temp\<close> of the concrete hub has a default
  value, and \<^verbatim>\<open>io_SetBooleanDefault\<close> on it returns \<^verbatim>\<open>LE_BAD_PARAMETER\<close>, not
  \<^verbatim>\<open>LE_DUPLICATE\<close>: the type check comes first.
\<close>

theorem default_type_checked_first_counterexample:
  "FindResource hub_ext hub (Some 1) ''temp'' = Some (Some 2)
   \<and> resTree_HasDefault hub 2 = Some True
   \<and> io_SetBooleanDefault hub_callees hub_ext hub (Some 1) ''temp'' True
       = Some (LE_BAD_PARAMETER, hub)
   \<and> LE_BAD_PARAMETER \<noteq> LE_DUPLICATE"
  by (simp add: io_SetBooleanDefault_def set_default_def io_eval hub_eval tree_eval)

text \<open>
  Claim C10, amended. For every Input or Output that already has a default value, a typed
  default setter whose type is the resource's declared type returns \<^verbatim>\<open>LE_DUPLICATE\<close>, a
  setter of another type returns \<^verbatim>\<open>LE_BAD_PARAMETER\<close>, and in both cases the hub state (the
  existing default with it) is unchanged. A setter changes the hub state only when the
  resource has no default and the setter's type is the resource's declared type.
\<close>

theorem default_set_once:
  "(FindResource x st nsRef path = Some (Some e) \<and>
    resTree_GetDataType st e = Some declared \<and> resTree_HasDefault st e = Some True \<longrightarrow>
      io_SetBooleanDefault cs x st nsRef path b =
        Some (if declared = IO_DATA_TYPE_BOOLEAN then LE_DUPLICATE else LE_BAD_PARAMETER, st)
    \<and> io_SetNumericDefault cs x st nsRef path d =
        Some (if declared = IO_DATA_TYPE_NUMERIC then LE_DUPLICATE else LE_BAD_PARAMETER, st)
    \<and> io_SetStringDefault cs x st nsRef path str =
        Some (if declared = IO_DATA_TYPE_STRING then LE_DUPLICATE else LE_BAD_PARAMETER, st)
    \<and> io_SetJsonDefault cs x st nsRef path str =
        Some (if declared = IO_DATA_TYPE_JSON then LE_DUPLICATE else LE_BAD_PARAMETER, st))
   \<and> ((io_SetBooleanDefault cs x st nsRef path b = Some (res, st') \<and> st' \<noteq> st \<longrightarrow>
        (\<exists>e'. FindResource x st nsRef path = Some (Some e') \<and>
           resTree_GetDataType st e' = Some IO_DATA_TYPE_BOOLEAN \<and>
           resTree_HasDefault st e' = Some False))
     \<and> (io_SetNumericDefault cs x st nsRef path d = Some (res, st') \<and> st' \<noteq> st \<longrightarrow>
        (\<exists>e'. FindResource x st nsRef path = Some (Some e') \<and>
           resTree_GetDataType st e' = Some IO_DATA_TYPE_NUMERIC \<and>
           resTree_HasDefault st e' = Some False))
     \<and> (io_SetStringDefault cs x st nsRef path str = Some (res, st') \<and> st' \<noteq> st \<longrightarrow>
        (\<exists>e'. FindResource x st nsRef path = Some (Some e') \<and>
           resTree_GetDataType st e' = Some IO_DATA_TYPE_STRING \<and>
           resTree_HasDefault st e' = Some False))
     \<and> (io_SetJsonDefault cs x st nsRef path str = Some (res, st') \<and> st' \<noteq> st \<longrightarrow>
        (\<exists>e'. FindResource x st nsRef path = Some (Some e') \<and>
           resTree_GetDataType st e' = Some IO_DATA_TYPE_JSON \<and>
           resTree_HasDefault st e' = Some False)))"
  unfolding io_SetBooleanDefault_def io_SetNumericDefault_def io_SetStringDefault_def
    io_SetJsonDefault_def
  by (intro conjI impI; (elim conjE)?)
     (simp_all add: set_default_has_default, (blast dest: set_default_changes)+)

theorem default_set_once_witness:
  "FindResource hub_ext hub (Some 1) ''temp'' = Some (Some 2)
   \<and> resTree_GetDataType hub 2 = Some IO_DATA_TYPE_NUMERIC
   \<and> resTree_HasDefault hub 2 = Some True
   \<and> io_SetNumericDefault hub_callees hub_ext hub (Some 1) ''temp'' (Finite 3)
       = Some (LE_DUPLICATE, hub)
   \<and> io_SetStringDefault hub_callees hub_ext hub (Some 1) ''temp'' ''x''
       = Some (LE_BAD_PARAMETER, hub)
   \<and> (\<exists>st'. io_SetBooleanDefault hub_callees hub_ext hub (Some 1) ''led'' True
               = Some (LE_OK, st') \<and> st' \<noteq> hub)
   \<and> FindResource hub_ext hub (Some 1) ''led'' = Some (Some 3)
   \<and> resTree_GetDataType hub 3 = Some IO_DATA_TYPE_BOOLEAN
   \<and> resTree_HasDefault hub 3 = Some False"
proof -
  have t: "FindResource hub_ext hub (Some 1) ''temp'' = Some (Some 2)"
    "resTree_GetDataType hub 2 = Some IO_DATA_TYPE_NUMERIC"
    "resTree_HasDefault hub 2 = Some True"
    by (simp_all add: io_eval hub_eval tree_eval)
  have l: "FindResource hub_ext hub (Some 1) ''led'' = Some (Some 3)"
    "resTree_GetDataType hub 3 = Some IO_DATA_TYPE_BOOLEAN"
    "resTree_HasDefault hub 3 = Some False"
    by (simp_all add: io_eval hub_eval tree_eval)
  define st' where "st' = hub\<lparr>resources := (resources hub)
      (11 := (resources hub 11)
         \<lparr>defaultValue := Some \<lparr>timestamp = Finite 1700000000, sample_val = BooleanValue True\<rparr>\<rparr>)\<rparr>"
  have p: "deref_resourcePtr (entries hub 3) = Some 11"
    by (simp add: hub_eval tree_eval)
  have c: "dataSample_CreateBoolean hub_ext (Finite 0) True =
             Some \<lparr>timestamp = Finite 1700000000, sample_val = BooleanValue True\<rparr>"
    by (simp add: create_defs CreateSample_def IO_NOW_def hub_ext_def)
  have sd: "resTree_SetDefault hub_callees hub 3 IO_DATA_TYPE_BOOLEAN
              \<lparr>timestamp = Finite 1700000000, sample_val = BooleanValue True\<rparr> = (LE_OK, st')"
    by (simp add: hub_callees_def p st'_def)
  have set: "io_SetBooleanDefault hub_callees hub_ext hub (Some 1) ''led'' True = Some (LE_OK, st')"
    using l c sd by (simp add: io_SetBooleanDefault_def set_default_def)
  have "defaultValue (resources st' 11) \<noteq> defaultValue (resources hub 11)"
    by (simp add: st'_def hub_eval)
  then have ne: "st' \<noteq> hub"
    by auto
  show ?thesis
    using t l set ne
      default_set_once [of hub_ext hub "Some 1" "''temp''" 2 IO_DATA_TYPE_NUMERIC hub_callees
                           True "Finite 3" "''x''" LE_OK st']
      default_set_once [of hub_ext hub "Some 1" "''led''" 3 IO_DATA_TYPE_BOOLEAN hub_callees
                           True "Finite 3" "''x''" LE_OK st']
    by auto
qed

subsection \<open>Routing\<close>

lemma source_walk_reaches:
  "source_reaches rs a b \<Longrightarrow> source_walk rs b (Some a) = Some True"
proof (induction rule: source_reaches.induct)
  case (here a)
  show ?case by (subst source_walk.simps) simp
next
  case (step a a' b)
  then show ?case by (subst source_walk.simps) simp
qed

lemma source_walk_ends:
  "source_chain_ends rs a \<Longrightarrow> \<not> source_reaches rs a b \<Longrightarrow>
     source_walk rs b (Some a) = Some False"
proof (induction rule: source_chain_ends.induct)
  case (last a)
  then have "a \<noteq> b" by (auto intro: source_reaches.here)
  with last show ?case
    by (subst source_walk.simps, simp, subst source_walk.simps, simp)
next
  case (more a a')
  then have ab: "a \<noteq> b" by (auto intro: source_reaches.here)
  have "\<not> source_reaches rs a' b"
    using more.hyps(1) more.prems by (auto intro: source_reaches.step)
  then have "source_walk rs b (Some a') = Some False"
    by (rule more.IH)
  with ab more.hyps(1) show ?case
    by (subst source_walk.simps) simp
qed

lemma chain_ends_after_link:
  assumes "source_chain_ends rs a" and "\<not> source_reaches rs a b"
  shows "source_chain_ends (rs(b := (rs b)\<lparr>srcPtr := Some a0\<rparr>)) a"
  using assms
proof (induction rule: source_chain_ends.induct)
  case (last a)
  then have "a \<noteq> b" by (auto intro: source_reaches.here)
  with last have "srcPtr ((rs(b := (rs b)\<lparr>srcPtr := Some a0\<rparr>)) a) = None"
    by simp
  then show ?case by (rule source_chain_ends.last)
next
  case (more a a')
  then have ab: "a \<noteq> b" by (auto intro: source_reaches.here)
  have "\<not> source_reaches rs a' b"
    using more.hyps(1) more.prems by (auto intro: source_reaches.step)
  then have tail: "source_chain_ends (rs(b := (rs b)\<lparr>srcPtr := Some a0\<rparr>)) a'"
    by (rule more.IH)
  have "srcPtr ((rs(b := (rs b)\<lparr>srcPtr := Some a0\<rparr>)) a) = Some a'"
    using ab more.hyps(1) by simp
  then show ?case using tail by (rule source_chain_ends.more)
qed

lemma set_source_keeps_chains_finite:
  assumes inv: "\<forall>c. source_chain_ends rs c"
    and ok: "res_SetSource rs b (Some a) = Some (LE_OK, rs')"
  shows "source_chain_ends rs' c"
proof -
  have nr: "\<not> source_reaches rs a b"
  proof
    assume "source_reaches rs a b"
    then have "source_walk rs b (Some a) = Some True" by (rule source_walk_reaches)
    with ok show False by (simp add: res_SetSource_def)
  qed
  have w: "source_walk rs b (Some a) = Some False"
    using inv nr by (simp add: source_walk_ends)
  have rs': "rs' = rs(b := (rs b)\<lparr>srcPtr := Some a\<rparr>)"
    using ok w by (simp add: res_SetSource_def)
  have a: "source_chain_ends rs' a"
    unfolding rs' using inv nr by (simp add: chain_ends_after_link)
  have "source_chain_ends rs c" using inv by simp
  then show ?thesis
  proof (induction rule: source_chain_ends.induct)
    case (last c)
    show ?case
    proof (cases "c = b")
      case True
      then have "srcPtr (rs' c) = Some a" by (simp add: rs')
      then show ?thesis using a by (rule source_chain_ends.more)
    next
      case False
      with last have "srcPtr (rs' c) = None" by (simp add: rs')
      then show ?thesis by (rule source_chain_ends.last)
    qed
  next
    case (more c c')
    show ?case
    proof (cases "c = b")
      case True
      then have "srcPtr (rs' c) = Some a" by (simp add: rs')
      then show ?thesis using a by (rule source_chain_ends.more)
    next
      case False
      with more.hyps(1) have "srcPtr (rs' c) = Some c'" by (simp add: rs')
      then show ?thesis using more.IH by (rule source_chain_ends.more)
    qed
  qed
qed

text \<open>
  Claim C2. Let the destination entry hold resource \<open>b\<close> and the source entry hold resource
  \<open>a\<close>. If following source links from \<open>a\<close> reaches \<open>b\<close>, setting the source returns
  \<^verbatim>\<open>LE_DUPLICATE\<close> and the hub state, the source of \<open>b\<close> with it, is unchanged. Otherwise,
  on a routing graph whose chain of source links from \<open>a\<close> ends (the acyclicity invariant of
  the data model), it returns \<^verbatim>\<open>LE_OK\<close>, the source of \<open>b\<close> is \<open>a\<close> whatever it was
  before, nothing else changes, and if the route existed already the hub state is unchanged.
\<close>

theorem set_source_rejects_loops:
  assumes "entry_type (entries st destEntry) \<noteq> ADMIN_ENTRY_TYPE_NAMESPACE"
    and "entry_type (entries st destEntry) \<noteq> ADMIN_ENTRY_TYPE_NONE"
    and "u (entries st destEntry) = U_resourcePtr (Some b)"
    and "u (entries st srcEntry) = U_resourcePtr (Some a)"
  shows "(source_reaches (resources st) a b \<longrightarrow>
            resTree_SetSource st destEntry (Some srcEntry) = Some (LE_DUPLICATE, st))
       \<and> (\<not> source_reaches (resources st) a b \<and> source_chain_ends (resources st) a \<longrightarrow>
            (\<exists>st'. resTree_SetSource st destEntry (Some srcEntry) = Some (LE_OK, st') \<and>
                   srcPtr (resources st' b) = Some a \<and>
                   st' = st\<lparr>resources := (resources st)
                                (b := (resources st b)\<lparr>srcPtr := Some a\<rparr>)\<rparr> \<and>
                   (srcPtr (resources st b) = Some a \<longrightarrow> st' = st)))"
proof (intro conjI impI)
  have d: "deref_resourcePtr (entries st destEntry) = Some b"
    "read_resourcePtr (entries st srcEntry) = Some (Some a)"
    using assms(3,4) by (simp_all add: deref_resourcePtr_def read_resourcePtr_def)
  {
    assume "source_reaches (resources st) a b"
    then have "source_walk (resources st) b (Some a) = Some True"
      by (rule source_walk_reaches)
    then show "resTree_SetSource st destEntry (Some srcEntry) = Some (LE_DUPLICATE, st)"
      using assms(1,2) d by (simp add: resTree_SetSource_def res_SetSource_def)
  next
    assume "\<not> source_reaches (resources st) a b \<and> source_chain_ends (resources st) a"
    then have w: "source_walk (resources st) b (Some a) = Some False"
      by (simp add: source_walk_ends)
    have same: "srcPtr (resources st b) = Some a \<Longrightarrow>
                  (resources st)(b := (resources st b)\<lparr>srcPtr := Some a\<rparr>) = resources st"
      by (metis Resource.surjective Resource.update_convs(6) fun_upd_triv)
    show "\<exists>st'. resTree_SetSource st destEntry (Some srcEntry) = Some (LE_OK, st') \<and>
                   srcPtr (resources st' b) = Some a \<and>
                   st' = st\<lparr>resources := (resources st)
                                (b := (resources st b)\<lparr>srcPtr := Some a\<rparr>)\<rparr> \<and>
                   (srcPtr (resources st b) = Some a \<longrightarrow> st' = st)"
      using assms(1,2) d w same by (auto simp: resTree_SetSource_def res_SetSource_def)
  }
qed

theorem set_source_rejects_loops_witness:
  "source_reaches (resources hub) 11 10
   \<and> resTree_SetSource hub 2 (Some 3) = Some (LE_DUPLICATE, hub)
   \<and> \<not> source_reaches (resources hub) 10 13 \<and> source_chain_ends (resources hub) 10
   \<and> (\<exists>st'. resTree_SetSource hub 6 (Some 2) = Some (LE_OK, st') \<and>
             srcPtr (resources st' 13) = Some 10)
   \<and> \<not> source_reaches (resources hub) 10 12 \<and> srcPtr (resources hub 12) = Some 10
   \<and> resTree_SetSource hub 5 (Some 2) = Some (LE_OK, hub)"
proof -
  have e: "entry_type (entries hub 2) \<noteq> ADMIN_ENTRY_TYPE_NAMESPACE"
    "entry_type (entries hub 2) \<noteq> ADMIN_ENTRY_TYPE_NONE"
    "u (entries hub 2) = U_resourcePtr (Some 10)"
    "entry_type (entries hub 6) \<noteq> ADMIN_ENTRY_TYPE_NAMESPACE"
    "entry_type (entries hub 6) \<noteq> ADMIN_ENTRY_TYPE_NONE"
    "u (entries hub 6) = U_resourcePtr (Some 13)"
    "entry_type (entries hub 5) \<noteq> ADMIN_ENTRY_TYPE_NAMESPACE"
    "entry_type (entries hub 5) \<noteq> ADMIN_ENTRY_TYPE_NONE"
    "u (entries hub 5) = U_resourcePtr (Some 12)"
    "u (entries hub 3) = U_resourcePtr (Some 11)"
    by (simp_all add: hub_eval)
  have s: "srcPtr (resources hub 11) = Some 12" "srcPtr (resources hub 12) = Some 10"
    "srcPtr (resources hub 10) = None"
    by (simp_all add: hub_eval)
  have r1: "source_reaches (resources hub) 11 10"
    using s by (blast intro: source_reaches.intros)
  have ends: "source_chain_ends (resources hub) 10"
    using s(3) by (rule source_chain_ends.last)
  have r2: "\<not> source_reaches (resources hub) 10 13" "\<not> source_reaches (resources hub) 10 12"
    using s(3) by (auto elim: source_reaches.cases)
  show ?thesis
    using r1 r2 ends s(2)
      set_source_rejects_loops [OF e(1,2,3) e(10)] set_source_rejects_loops [OF e(4,5,6) e(3)] set_source_rejects_loops [OF e(7,8,9) e(3)]
    by auto
qed

subsection \<open>Push handlers\<close>

lemmas handler_eval =
  AddPushHandler_def resTree_AddPushHandler_def res_AddPushHandler_def handler_Add_def
  handler_Call_def io_AddTriggerPushHandler_def io_AddBooleanPushHandler_def
  io_AddNumericPushHandler_def io_AddStringPushHandler_def io_AddJsonPushHandler_def

text \<open>
  Claim C3, as stated, fails: the numeric Input \<open>temp\<close> of the concrete hub has a current
  value, a Boolean push handler is registered on it (the registration returns the handler
  reference 1), and no callback is made.
\<close>

theorem mismatched_handler_not_replayed_counterexample:
  "resTree_GetCurrentValue hub 2 = Some (Some temp_sample)
   \<and> map_option fst (io_AddBooleanPushHandler hub_ext hub (Some 1) ''temp'' 7 0) = Some (Some 1)
   \<and> map_option (log \<circ> snd) (io_AddBooleanPushHandler hub_ext hub (Some 1) ''temp'' 7 0)
       = Some []"
  by (simp add: handler_eval io_eval hub_eval tree_eval)

text \<open>
  Claim C3, amended. For every push handler \<open>h\<close> that a call of \<^verbatim>\<open>AddPushHandler\<close> (the
  body of the five \<^verbatim>\<open>io_Add*PushHandler\<close> functions, \<open>dt\<close> being the handler's type)
  registers on a resource: the callbacks made before the call returns are exactly one
  callback of \<open>h\<close> with the resource's current value (timestamp and value) if the resource
  has a current value and the handler's type is the resource's declared type or is string or
  JSON; there is no callback if the resource has no current value, and none for a handler of
  another type.
\<close>

theorem registered_handler_replay:
  assumes "nsRef = Some ns"
    and "resTree_FindEntry x (entries st) ns path = Some (Some resRef)"
    and "u (entries st resRef) = U_resourcePtr (Some r)"
    and "AddPushHandler x st nsRef path dt cb ctx = Some (Some h, st')"
  shows "log st' = log st @
           (case currentValue (resources st r) of
              None \<Rightarrow> []
            | Some v \<Rightarrow>
                if dt = dataType (resources st r) \<or> dt = IO_DATA_TYPE_STRING
                   \<or> dt = IO_DATA_TYPE_JSON
                then [PushCallback h v] else [])"
proof -
  have io: "entry_type (entries st resRef) = ADMIN_ENTRY_TYPE_INPUT \<or>
            entry_type (entries st resRef) = ADMIN_ENTRY_TYPE_OUTPUT"
    using assms(1,2,4)
    by (auto simp: AddPushHandler_def resTree_GetEntryType_def Let_def split: if_splits)
  then have ns: "entry_type (entries st resRef) \<noteq> ADMIN_ENTRY_TYPE_NAMESPACE"
    by auto
  note v = resource_entry_views [OF ns assms(3)]
  show ?thesis
    using assms(1,2,4) io v
    by (cases "currentValue (resources st r)")
       (auto simp: AddPushHandler_def resTree_AddPushHandler_def res_AddPushHandler_def
          handler_Add_def handler_Call_def resTree_GetEntryType_def resTree_GetCurrentValue_def
          resTree_GetDataType_def ioPoint_GetDataType_def Let_def
          split: if_splits)
qed

theorem registered_handler_replay_witness:
  "resTree_FindEntry hub_ext (entries hub) 1 ''temp'' = Some (Some 2)
   \<and> u (entries hub 2) = U_resourcePtr (Some 10)
   \<and> currentValue (resources hub 10) = Some temp_sample
   \<and> dataType (resources hub 10) = IO_DATA_TYPE_NUMERIC
   \<and> (\<exists>st'. io_AddNumericPushHandler hub_ext hub (Some 1) ''temp'' 7 0 = Some (Some 1, st')
         \<and> log st' = [PushCallback 1 temp_sample])
   \<and> (\<exists>st'. io_AddJsonPushHandler hub_ext hub (Some 1) ''temp'' 7 0 = Some (Some 1, st')
         \<and> log st' = [PushCallback 1 temp_sample])
   \<and> resTree_FindEntry hub_ext (entries hub) 1 ''led'' = Some (Some 3)
   \<and> u (entries hub 3) = U_resourcePtr (Some 11)
   \<and> currentValue (resources hub 11) = None
   \<and> (\<exists>st'. io_AddBooleanPushHandler hub_ext hub (Some 1) ''led'' 7 0 = Some (Some 1, st')
         \<and> log st' = [])"
proof -
  have t: "resTree_FindEntry hub_ext (entries hub) 1 ''temp'' = Some (Some 2)"
    "resTree_FindEntry hub_ext (entries hub) 1 ''led'' = Some (Some 3)"
    by (simp_all add: hub_eval tree_eval)
  have e: "u (entries hub 2) = U_resourcePtr (Some 10)" "u (entries hub 3) = U_resourcePtr (Some 11)"
    "currentValue (resources hub 10) = Some temp_sample"
    "dataType (resources hub 10) = IO_DATA_TYPE_NUMERIC"
    "currentValue (resources hub 11) = None" "log hub = []"
    by (simp_all add: hub_eval)
  have "map_option fst (AddPushHandler hub_ext hub (Some 1) ''temp'' IO_DATA_TYPE_NUMERIC 7 0)
          = Some (Some 1)"
    by (simp add: handler_eval io_eval hub_eval tree_eval)
  then obtain s1 where
    s1: "AddPushHandler hub_ext hub (Some 1) ''temp'' IO_DATA_TYPE_NUMERIC 7 0 = Some (Some 1, s1)"
    by auto
  have "map_option fst (AddPushHandler hub_ext hub (Some 1) ''temp'' IO_DATA_TYPE_JSON 7 0)
          = Some (Some 1)"
    by (simp add: handler_eval io_eval hub_eval tree_eval)
  then obtain s2 where
    s2: "AddPushHandler hub_ext hub (Some 1) ''temp'' IO_DATA_TYPE_JSON 7 0 = Some (Some 1, s2)"
    by auto
  have "map_option fst (AddPushHandler hub_ext hub (Some 1) ''led'' IO_DATA_TYPE_BOOLEAN 7 0)
          = Some (Some 1)"
    by (simp add: handler_eval io_eval hub_eval tree_eval)
  then obtain s3 where
    s3: "AddPushHandler hub_ext hub (Some 1) ''led'' IO_DATA_TYPE_BOOLEAN 7 0 = Some (Some 1, s3)"
    by auto
  have "log s1 = [PushCallback 1 temp_sample]"
    using registered_handler_replay [OF refl t(1) e(1) s1] e by simp
  moreover have "log s2 = [PushCallback 1 temp_sample]"
    using registered_handler_replay [OF refl t(1) e(1) s2] e by simp
  moreover have "log s3 = []"
    using registered_handler_replay [OF refl t(2) e(2) s3] e by simp
  ultimately show ?thesis
    using t e s1 s2 s3
    by (simp add: io_AddNumericPushHandler_def io_AddJsonPushHandler_def
          io_AddBooleanPushHandler_def)
qed

end
